theory Spec2Isabelle
  imports Complex_Main
begin

section \<open>Data model of sysnet/sources/train.py\<close>

text \<open>
  Losses and weights are modelled as real numbers: the finite, non-NaN values of the
  source's floating-point tensors. The Python floats of \<open>train_val\<close> are compared, added
  and divided without rounding; the arithmetic \<open>evaluate\<close> does on tensors is another
  one and is a parameter. A tensor is the flat list of its entries. Everything the source
  raises is a value of \<open>error\<close>.
\<close>

datatype error =
    RuntimeError string
  | AssertionError
  | ZeroDivisionError
  | TypeError
  | ValueError
  | IndexError
  | AttributeError
  | Not_finite

datatype phase = train | valid | test

type_synonym tensor = "real list"

text \<open>\<open>torch.norm(W, p=1)\<close> and \<open>W.norm(2)\<close>: both flatten the tensor.\<close>

definition norm_p1 :: "tensor \<Rightarrow> real" where
  "norm_p1 W = (\<Sum>x\<leftarrow>W. \<bar>x\<bar>)"

definition norm_2 :: "tensor \<Rightarrow> real" where
  "norm_2 W = sqrt (\<Sum>x\<leftarrow>W. x\<^sup>2)"

text \<open>
  A module is the list of its sub-modules as \<open>model.modules()\<close> walks them, each with
  the layer class that \<open>isinstance\<close> tests, and the train/eval flag. What a layer holds is
  left open (\<open>'l\<close>); the accessors live in the record \<open>torch\<close> below.
\<close>

datatype layer_class = Linear | BatchNorm1d | Other_layer

record 'l module =
  modules :: "(layer_class \<times> 'l) list"
  training :: bool

text \<open>
  Keyword arguments of \<open>train_val\<close>, with the defaults of its signature. \<open>scheduler\<close>
  says whether a scheduler object is passed (\<open>scheduler is not None\<close>); the object
  itself is a slot of the record \<open>world\<close> below.
\<close>

record kwargs =
  output_path :: "string option"
  scheduler :: bool
  L1lambda :: real
  L2lambda :: real
  L1norm :: bool
  L2norm :: bool

definition default_kwargs :: kwargs where
  "default_kwargs =
     \<lparr>output_path = None, scheduler = False, L1lambda = 1 / 10 ^ 3, L2lambda = 1 / 10 ^ 6,
      L1norm = False, L2norm = False\<rparr>"

text \<open>
  The facilities of PyTorch and of the operating system the source calls but does not
  define, taken as parameters:
  \<^item> \<open>fc0_weight\<close> is \<open>model.fc[0].weight\<close>, \<open>parameters\<close> is \<open>model.parameters()\<close>;
  \<^item> \<open>reset_parameters\<close> is \<open>m.reset_parameters()\<close> on one layer;
  \<^item> \<open>forward\<close> is \<open>model(data)\<close>, which reads the train/eval flag;
  \<^item> \<open>criterion\<close> is the loss object, \<open>criterion(input, target)\<close> as a number;
  \<^item> \<open>size0\<close> is \<open>data.size(0)\<close>;
  \<^item> \<open>backward_step\<close> is the effect of \<open>optimizer.zero_grad()\<close>, the forward pass in
    training mode, \<open>loss.backward()\<close> and \<open>optimizer.step()\<close> on the model and the
    optimizer, for the regularised loss the keyword arguments select;
  \<^item> \<open>scheduler_step\<close> is \<open>scheduler.step(x)\<close>, which also writes the learning rate
    into the optimizer;
  \<^item> \<open>path_exists\<close> is \<open>os.path.exists\<close>;
  \<^item> \<open>tensor_add\<close>, \<open>tensor_mul\<close> and \<open>tensor_div\<close> are \<open>+\<close>, \<open>*\<close> and \<open>/\<close> on a
    tensor of one entry, in the tensor's own precision.
\<close>

record ('l, 'o, 's, 'x, 'p) torch =
  fc0_weight :: "'l module \<Rightarrow> tensor"
  parameters :: "'l module \<Rightarrow> tensor list"
  reset_parameters :: "'l \<Rightarrow> 'l"
  forward :: "'l module \<Rightarrow> 'x \<Rightarrow> 'p"
  criterion :: "'p \<Rightarrow> 'p \<Rightarrow> real"
  size0 :: "'x \<Rightarrow> nat"
  backward_step :: "kwargs \<Rightarrow> 'x \<Rightarrow> 'p \<Rightarrow> 'l module \<Rightarrow> 'o \<Rightarrow> 'l module \<times> 'o"
  scheduler_step :: "real \<Rightarrow> 's \<Rightarrow> 'o \<Rightarrow> 's \<times> 'o"
  path_exists :: "string \<Rightarrow> bool"
  tensor_add :: "real \<Rightarrow> real \<Rightarrow> real"
  tensor_mul :: "real \<Rightarrow> real \<Rightarrow> real"
  tensor_div :: "real \<Rightarrow> real \<Rightarrow> real"

section \<open>add_regularization\<close>

text \<open>
  The loop over \<open>model.parameters()\<close>: \<open>l2_reg\<close> starts as \<open>None\<close>, takes the first
  norm and adds every later one.
\<close>

fun l2_loop :: "real option \<Rightarrow> tensor list \<Rightarrow> real option" where
  "l2_loop l2_reg [] = l2_reg"
| "l2_loop None (W # Ws) = l2_loop (Some (norm_2 W)) Ws"
| "l2_loop (Some r) (W # Ws) = l2_loop (Some (r + norm_2 W)) Ws"

text \<open>
  With \<open>L2norm\<close> set and a model without parameters \<open>l2_reg\<close> is still \<open>None\<close> at
  \<open>L2lambda * l2_reg\<close>, which raises \<open>TypeError\<close>.
\<close>

definition add_regularization ::
  "('l, 'o, 's, 'x, 'p) torch \<Rightarrow> 'l module \<Rightarrow> real \<Rightarrow> bool \<Rightarrow> bool \<Rightarrow> real \<Rightarrow> real
     \<Rightarrow> error + real" where
  "add_regularization T m loss l1norm l2norm l1lambda l2lambda =
     (let loss1 = (if l1norm then loss + l1lambda * norm_p1 (fc0_weight T m) else loss)
      in if l2norm
         then (case l2_loop None (parameters T m) of
                 None \<Rightarrow> Inl TypeError
               | Some l2_reg \<Rightarrow> Inr (loss1 + l2lambda * l2_reg))
         else Inr loss1)"

section \<open>The early-stopping monitor\<close>

text \<open>
  Modelled from the spec: the class \<open>EarlyStopping\<close> of \<open>sysnet/sources/callbacks.py\<close>,
  which \<open>train.py\<close> imports and which is not among the source files. The spec (4.2):
  construction parameters \<open>patience\<close> and \<open>verbose\<close>; the best-seen loss is initially
  +infinity (\<open>None\<close> here); a call with \<open>val_loss < best\<close> records the new best and resets
  the counter to 0, any other call increments the counter and sets the terminal flag once
  the counter has reached \<open>patience\<close>.
\<close>

record early_stopping =
  patience :: nat
  verbose :: bool
  best :: "real option"
  counter :: nat
  early_stop :: bool

definition EarlyStopping :: "nat \<Rightarrow> bool \<Rightarrow> early_stopping" where
  "EarlyStopping p v =
     \<lparr>patience = p, verbose = v, best = None, counter = 0, early_stop = False\<rparr>"

definition early_stopping_call :: "real \<Rightarrow> early_stopping \<Rightarrow> early_stopping" where
  "early_stopping_call val_loss e =
     (if (case best e of None \<Rightarrow> True | Some b \<Rightarrow> val_loss < b)
      then e\<lparr>best := Some val_loss, counter := 0\<rparr>
      else e\<lparr>counter := counter e + 1,
             early_stop := (if patience e \<le> counter e + 1 then True else early_stop e)\<rparr>)"

section \<open>The objects train_val works on\<close>

text \<open>
  The calls the properties below speak about are logged in the order they happen.
\<close>

datatype event = Scheduler_step real | Optimizer_step

text \<open>
  The mutable objects: the model, the optimizer, the scheduler (read only when the
  keyword argument \<open>scheduler\<close> is set), the files \<open>torch.save\<close> has written, and the
  log of calls.
\<close>

record ('l, 'o, 's) world =
  model :: "'l module"
  optimizer :: 'o
  lr_scheduler :: 's
  files :: "string \<Rightarrow> 'l module option"
  calls :: "event list"

text \<open>
  \<open>os.path.dirname\<close> of \<open>posixpath\<close>: the path up to and with its last slash, then
  without trailing slashes unless it consists of slashes only.
\<close>

definition dirname :: "string \<Rightarrow> string" where
  "dirname p =
     (let head = rev (dropWhile (\<lambda>c. c \<noteq> CHR ''/'') (rev p))
      in if head \<noteq> [] \<and> head \<noteq> replicate (length head) (CHR ''/'')
         then rev (dropWhile (\<lambda>c. c = CHR ''/'') (rev head))
         else head)"

section \<open>train_val\<close>

text \<open>
  The loop over the training batches of one epoch (lines 173 to 197). \<open>i\<close> counts the
  batches only when a scheduler is passed; \<open>running\<close> is \<open>running_train_loss\<close>.
\<close>

fun train_batches ::
  "('l, 'o, 's, 'x, 'p) torch \<Rightarrow> kwargs \<Rightarrow> nat \<Rightarrow> nat \<Rightarrow> ('x \<times> 'p) list \<Rightarrow> nat \<Rightarrow> real
     \<Rightarrow> ('l, 'o, 's) world \<Rightarrow> (error + real) \<times> ('l, 'o, 's) world" where
  "train_batches T kw epoch num_iter [] i running w = (Inr running, w)"
| "train_batches T kw epoch num_iter ((data, target) # rest) i running w =
     (let w1 = (if scheduler kw
                then (let x = real epoch + real i / real num_iter;
                          so = scheduler_step T x (lr_scheduler w) (optimizer w)
                      in w\<lparr>optimizer := snd so, lr_scheduler := fst so,
                           calls := calls w @ [Scheduler_step x]\<rparr>)
                else w);
          i1 = (if scheduler kw then i + 1 else i);
          outputs = forward T (model w1) data;
          loss = criterion T outputs target
      in case add_regularization T (model w1) loss
                (L1norm kw) (L2norm kw) (L1lambda kw) (L2lambda kw) of
           Inl e \<Rightarrow> (Inl e, w1)
         | Inr loss' \<Rightarrow>
             (let mo = backward_step T kw data target (model w1) (optimizer w1);
                  w2 = w1\<lparr>model := fst mo, optimizer := snd mo,
                          calls := calls w1 @ [Optimizer_step]\<rparr>
              in train_batches T kw epoch num_iter rest i1
                   (running + loss' * real (size0 T data)) w2))"

text \<open>The validation pass (lines 205 to 210): no regularisation, model unchanged.\<close>

definition valid_batches ::
  "('l, 'o, 's, 'x, 'p) torch \<Rightarrow> 'l module \<Rightarrow> ('x \<times> 'p) list \<Rightarrow> real" where
  "valid_batches T m batches =
     foldl (\<lambda>running (data, target).
              running + criterion T (forward T m data) target * real (size0 T data))
       0 batches"

text \<open>The local variables of \<open>train_val\<close> that live across epochs.\<close>

record 'l locals =
  train_losses :: "real list"
  valid_losses :: "real list"
  best_model_wts :: "'l module option"
  best_val_loss :: real
  early_stopping :: early_stopping

text \<open>
  One pass of the epoch loop's body (lines 165 to 226): the training phase, the
  validation phase, the best checkpoint, the call of the monitor. Dividing by a dataset
  length of zero raises \<open>ZeroDivisionError\<close>.
\<close>

definition epoch_body ::
  "('l, 'o, 's, 'x, 'p) torch \<Rightarrow> (phase \<Rightarrow> ('x \<times> 'p) list) \<Rightarrow> (phase \<Rightarrow> nat) \<Rightarrow> kwargs
     \<Rightarrow> nat \<Rightarrow> nat \<Rightarrow> 'l locals \<Rightarrow> ('l, 'o, 's) world
     \<Rightarrow> (error + 'l locals) \<times> ('l, 'o, 's) world" where
  "epoch_body T dataloaders datasets_len kw num_iter epoch L w =
     (let w1 = w\<lparr>model := (model w)\<lparr>training := True\<rparr>\<rparr>
      in case train_batches T kw epoch num_iter (dataloaders train) 0 0 w1 of
           (Inl e, w2) \<Rightarrow> (Inl e, w2)
         | (Inr running_train_loss, w2) \<Rightarrow>
             if datasets_len train = 0 then (Inl ZeroDivisionError, w2)
             else
               (let loss_train_epoch = running_train_loss / real (datasets_len train);
                    L1 = L\<lparr>train_losses := train_losses L @ [loss_train_epoch]\<rparr>;
                    w3 = w2\<lparr>model := (model w2)\<lparr>training := False\<rparr>\<rparr>;
                    running_valid_loss = valid_batches T (model w3) (dataloaders valid)
                in if datasets_len valid = 0 then (Inl ZeroDivisionError, w3)
                   else
                     (let loss_valid_epoch = running_valid_loss / real (datasets_len valid);
                          L2 = L1\<lparr>valid_losses := valid_losses L1 @ [loss_valid_epoch]\<rparr>;
                          L3 = (if loss_valid_epoch < best_val_loss L2
                                then L2\<lparr>best_val_loss := loss_valid_epoch,
                                       best_model_wts :=
                                         (if output_path kw \<noteq> None then Some (model w3)
                                          else best_model_wts L2)\<rparr>
                                else L2)
                      in (Inr (L3\<lparr>early_stopping :=
                                    early_stopping_call loss_valid_epoch (early_stopping L3)\<rparr>),
                          w3))))"

text \<open>
  The epoch loop (lines 164 to 229) over the epochs still to run; \<open>break\<close> returns at
  once when the monitor's flag is set.
\<close>

fun epoch_loop ::
  "('l, 'o, 's, 'x, 'p) torch \<Rightarrow> (phase \<Rightarrow> ('x \<times> 'p) list) \<Rightarrow> (phase \<Rightarrow> nat) \<Rightarrow> kwargs
     \<Rightarrow> nat \<Rightarrow> nat list \<Rightarrow> 'l locals \<Rightarrow> ('l, 'o, 's) world
     \<Rightarrow> (error + 'l locals) \<times> ('l, 'o, 's) world" where
  "epoch_loop T dataloaders datasets_len kw num_iter [] L w = (Inr L, w)"
| "epoch_loop T dataloaders datasets_len kw num_iter (epoch # rest) L w =
     (case epoch_body T dataloaders datasets_len kw num_iter epoch L w of
        (Inl e, w') \<Rightarrow> (Inl e, w')
      | (Inr L', w') \<Rightarrow>
          if early_stop (early_stopping L') then (Inr L', w')
          else epoch_loop T dataloaders datasets_len kw num_iter rest L' w')"

text \<open>
  The local variables as lines 153 to 160 set them: empty loss lists, a first copy of the
  weights when a checkpoint is asked for, the large first value of \<open>best_val_loss\<close>, a
  fresh monitor with \<open>patience=10\<close>.
\<close>

definition initial_locals :: "kwargs \<Rightarrow> ('l, 'o, 's) world \<Rightarrow> 'l locals" where
  "initial_locals kw w =
     \<lparr>train_losses = [], valid_losses = [],
      best_model_wts = (if output_path kw \<noteq> None then Some (model w) else None),
      best_val_loss = 1000000,
      early_stopping = EarlyStopping 10 True\<rparr>"

text \<open>
  \<open>train_val\<close> itself. \<open>model.to(device)\<close> does not change a value of the model. The
  result is what is raised or returned, with the objects as the call leaves them.
\<close>

definition train_val ::
  "('l, 'o, 's, 'x, 'p) torch \<Rightarrow> (phase \<Rightarrow> ('x \<times> 'p) list) \<Rightarrow> (phase \<Rightarrow> nat) \<Rightarrow> int
     \<Rightarrow> kwargs \<Rightarrow> ('l, 'o, 's) world
     \<Rightarrow> (error + real list \<times> real list \<times> real) \<times> ('l, 'o, 's) world" where
  "train_val T dataloaders datasets_len nepochs kw w =
     (case (case output_path kw of
              None \<Rightarrow> None
            | Some p \<Rightarrow>
                (let output_dir = dirname p
                 in if \<not> path_exists T output_dir
                    then Some (RuntimeError (output_dir @ '' does not exist''))
                    else None)) of
        Some e \<Rightarrow> (Inl e, w)
      | None \<Rightarrow>
          (let num_iter = length (dataloaders train)
           in case epoch_loop T dataloaders datasets_len kw num_iter [0..<nat nepochs]
                     (initial_locals kw w) w of
                (Inl e, w') \<Rightarrow> (Inl e, w')
              | (Inr L, w') \<Rightarrow>
                  (Inr (train_losses L, valid_losses L, best_val_loss L),
                   (case (output_path kw, best_model_wts L) of
                      (Some p, Some wts) \<Rightarrow> w'\<lparr>files := (files w')(p \<mapsto> wts)\<rparr>
                    | _ \<Rightarrow> w'))))"

section \<open>evaluate\<close>

text \<open>
  \<open>evaluate\<close> puts the model in evaluation mode and sums \<open>criterion(target, model(data))\<close>
  times the batch size: the criterion's arguments are in the other order than in
  \<open>train_val\<close>, and the sum and the division are tensor arithmetic, where \<open>train_val\<close>
  takes \<open>loss.item()\<close> and computes with Python floats. \<open>loss\<close> starts as the integer 0
  and is a tensor from the first batch on: without a batch,
  \<open>(loss / datasets_len[phase]).item()\<close> divides integers and then fails on \<open>.item()\<close>;
  with one, a division by zero gives inf or nan, which is not a number of this model.
\<close>

definition evaluate ::
  "('l, 'o, 's, 'x, 'p) torch \<Rightarrow> 'l module \<Rightarrow> (phase \<Rightarrow> ('x \<times> 'p) list) \<Rightarrow> (phase \<Rightarrow> nat)
     \<Rightarrow> phase \<Rightarrow> error + real" where
  "evaluate T m dataloaders datasets_len ph =
     (let m' = m\<lparr>training := False\<rparr>;
          loss = foldl (\<lambda>loss (data, target).
                          tensor_add T loss
                            (tensor_mul T (criterion T target (forward T m' data))
                               (real (size0 T data))))
                   0 (dataloaders ph)
      in if dataloaders ph = []
         then (if datasets_len ph = 0 then Inl ZeroDivisionError else Inl AttributeError)
         else if datasets_len ph = 0 then Inl Not_finite
         else Inr (tensor_div T loss (real (datasets_len ph))))"

section \<open>The tuners\<close>

text \<open>
  \<open>np.logspace(start, stop, num)\<close> for \<open>num > 1\<close>: ten to the power of \<open>num\<close> evenly
  spaced exponents from \<open>start\<close> to \<open>stop\<close>, both included.
\<close>

definition logspace :: "real \<Rightarrow> real \<Rightarrow> nat \<Rightarrow> real list" where
  "logspace start stop num =
     map (\<lambda>k. 10 powr (start + real k * ((stop - start) / real (num - 1)))) [0..<num]"

definition l1_lambdas :: "real list" where
  "l1_lambdas = logspace (- 6) 0 10"

text \<open>
  \<open>np.argmin\<close>: the first index of the least entry, \<open>ValueError\<close> on an empty sequence.
  \<open>getitem\<close> is indexing with a non-negative index, which raises out of range.
\<close>

fun argmin_loop :: "nat \<Rightarrow> real \<Rightarrow> nat \<Rightarrow> real list \<Rightarrow> nat" where
  "argmin_loop bi bv i [] = bi"
| "argmin_loop bi bv i (x # xs) =
     (if x < bv then argmin_loop i x (Suc i) xs else argmin_loop bi bv (Suc i) xs)"

definition argmin :: "real list \<Rightarrow> error + nat" where
  "argmin xs = (case xs of [] \<Rightarrow> Inl ValueError | x # rest \<Rightarrow> Inr (argmin_loop 0 x 1 rest))"

definition getitem :: "'a list \<Rightarrow> nat \<Rightarrow> error + 'a" where
  "getitem xs k = (if k < length xs then Inr (xs ! k) else Inl IndexError)"

text \<open>
  \<open>weight_reset\<close> on one sub-module, and \<open>model.apply(fn)\<close>, which calls \<open>fn\<close> on every
  sub-module.
\<close>

definition weight_reset ::
  "('l, 'o, 's, 'x, 'p) torch \<Rightarrow> layer_class \<times> 'l \<Rightarrow> layer_class \<times> 'l" where
  "weight_reset T m =
     (if fst m = BatchNorm1d \<or> fst m = Linear then (fst m, reset_parameters T (snd m)) else m)"

definition module_apply ::
  "(layer_class \<times> 'l \<Rightarrow> layer_class \<times> 'l) \<Rightarrow> 'l module \<Rightarrow> 'l module" where
  "module_apply fn m = m\<lparr>modules := map fn (modules m)\<rparr>"

text \<open>
  The loop of \<open>tune_L1\<close> (lines 51 to 68) over the strengths still to try: the model is
  reset, the optimizer is the one of the trial before.
\<close>

fun tune_L1_loop ::
  "('l, 'o, 's, 'x, 'p) torch \<Rightarrow> (phase \<Rightarrow> ('x \<times> 'p) list) \<Rightarrow> (phase \<Rightarrow> nat) \<Rightarrow> int
     \<Rightarrow> real list \<Rightarrow> real list \<Rightarrow> ('l, 'o, 's) world
     \<Rightarrow> (error + real list) \<times> ('l, 'o, 's) world" where
  "tune_L1_loop T dataloaders datasets_len nepochs [] best_val_losses w =
     (Inr best_val_losses, w)"
| "tune_L1_loop T dataloaders datasets_len nepochs (l1_lambda # rest) best_val_losses w =
     (let w1 = w\<lparr>model := module_apply (weight_reset T) (model w)\<rparr>
      in case train_val T dataloaders datasets_len nepochs
                (default_kwargs\<lparr>L1lambda := l1_lambda, L1norm := True\<rparr>) w1 of
           (Inl e, w2) \<Rightarrow> (Inl e, w2)
         | (Inr r, w2) \<Rightarrow>
             tune_L1_loop T dataloaders datasets_len nepochs rest
               (best_val_losses @ [snd (snd r)]) w2)"

definition tune_L1 ::
  "('l, 'o, 's, 'x, 'p) torch \<Rightarrow> (phase \<Rightarrow> ('x \<times> 'p) list) \<Rightarrow> (phase \<Rightarrow> nat) \<Rightarrow> int
     \<Rightarrow> ('l, 'o, 's) world \<Rightarrow> (error + real) \<times> ('l, 'o, 's) world" where
  "tune_L1 T dataloaders datasets_len nepochs w =
     (if \<not> nepochs < 10 then (Inl AssertionError, w)
      else
        (case tune_L1_loop T dataloaders datasets_len nepochs l1_lambdas [] w of
           (Inl e, w') \<Rightarrow> (Inl e, w')
         | (Inr best_val_losses, w') \<Rightarrow>
             (case argmin best_val_losses of
                Inl e \<Rightarrow> (Inl e, w')
              | Inr k \<Rightarrow> (getitem l1_lambdas k, w'))))"

text \<open>
  The loop of \<open>tune_model_structure\<close> (lines 87 to 106): \<open>DNN\<close> builds the model of a
  structure and \<open>AdamW\<close> an optimizer for its parameters; both replace the ones of the
  trial before.
\<close>

fun tune_model_structure_loop ::
  "('l, 'o, 's, 'x, 'p) torch \<Rightarrow> ('c \<Rightarrow> 'l module) \<Rightarrow> (tensor list \<Rightarrow> 'k \<Rightarrow> 'o)
     \<Rightarrow> (phase \<Rightarrow> ('x \<times> 'p) list) \<Rightarrow> (phase \<Rightarrow> nat) \<Rightarrow> int \<Rightarrow> 'k
     \<Rightarrow> 'c list \<Rightarrow> real list \<Rightarrow> ('l, 'o, 's) world
     \<Rightarrow> (error + real list) \<times> ('l, 'o, 's) world" where
  "tune_model_structure_loop T DNN AdamW dataloaders datasets_len nepochs adamw_kw
       [] best_val_losses w =
     (Inr best_val_losses, w)"
| "tune_model_structure_loop T DNN AdamW dataloaders datasets_len nepochs adamw_kw
       (structure # rest) best_val_losses w =
     (let m = DNN structure;
          w1 = w\<lparr>model := m, optimizer := AdamW (parameters T m) adamw_kw\<rparr>
      in case train_val T dataloaders datasets_len nepochs default_kwargs w1 of
           (Inl e, w2) \<Rightarrow> (Inl e, w2)
         | (Inr r, w2) \<Rightarrow>
             tune_model_structure_loop T DNN AdamW dataloaders datasets_len nepochs adamw_kw
               rest (best_val_losses @ [snd (snd r)]) w2)"

definition tune_model_structure ::
  "('l, 'o, 's, 'x, 'p) torch \<Rightarrow> ('c \<Rightarrow> 'l module) \<Rightarrow> (tensor list \<Rightarrow> 'k \<Rightarrow> 'o)
     \<Rightarrow> (phase \<Rightarrow> ('x \<times> 'p) list) \<Rightarrow> (phase \<Rightarrow> nat) \<Rightarrow> int \<Rightarrow> 'c list \<Rightarrow> 'k
     \<Rightarrow> ('l, 'o, 's) world \<Rightarrow> (error + 'c) \<times> ('l, 'o, 's) world" where
  "tune_model_structure T DNN AdamW dataloaders datasets_len nepochs structures adamw_kw w =
     (if \<not> nepochs < 10 then (Inl AssertionError, w)
      else
        (case tune_model_structure_loop T DNN AdamW dataloaders datasets_len nepochs adamw_kw
                structures [] w of
           (Inl e, w') \<Rightarrow> (Inl e, w')
         | (Inr best_val_losses, w') \<Rightarrow>
             (case argmin best_val_losses of
                Inl e \<Rightarrow> (Inl e, w')
              | Inr k \<Rightarrow> (getitem structures k, w'))))"

section \<open>Notions the properties are stated with\<close>

text \<open>The monitor after it has been called with the losses \<open>vs\<close>, in order.\<close>

definition monitor_after :: "early_stopping \<Rightarrow> real list \<Rightarrow> early_stopping" where
  "monitor_after e vs = foldl (\<lambda>e v. early_stopping_call v e) e vs"

text \<open>The validation loss of one epoch, for the model in evaluation mode.\<close>

definition epoch_valid_loss ::
  "('l, 'o, 's, 'x, 'p) torch \<Rightarrow> (phase \<Rightarrow> ('x \<times> 'p) list) \<Rightarrow> (phase \<Rightarrow> nat) \<Rightarrow> 'l module
     \<Rightarrow> real" where
  "epoch_valid_loss T dataloaders datasets_len m =
     valid_batches T m (dataloaders valid) / real (datasets_len valid)"

text \<open>
  The argument of \<open>scheduler.step\<close> for batch \<open>i\<close> of an epoch, and the calls of one
  epoch's training phase when a scheduler is passed: for each batch in turn, the
  scheduler's step and then the optimizer's.
\<close>

definition fractional_epoch :: "nat \<Rightarrow> nat \<Rightarrow> nat \<Rightarrow> real" where
  "fractional_epoch epoch i num_iter = real epoch + real i / real num_iter"

definition epoch_events :: "nat \<Rightarrow> nat \<Rightarrow> event list" where
  "epoch_events epoch num_iter =
     concat (map (\<lambda>i. [Scheduler_step (fractional_epoch epoch i num_iter), Optimizer_step])
       [0..<num_iter])"

text \<open>
  What the spec says a training batch does to the model, the optimizer and the scheduler
  when a scheduler is passed: the scheduler is stepped with the fractional epoch of the
  batch, and the optimizer's step then works on what the scheduler left. An epoch's
  training phase does so for every batch in turn, in training mode, and the validation
  phase leaves the model in evaluation mode.
\<close>

definition scheduled_update ::
  "('l, 'o, 's, 'x, 'p) torch \<Rightarrow> kwargs \<Rightarrow> nat \<Rightarrow> nat \<Rightarrow> 'l module \<times> 'o \<times> 's
     \<Rightarrow> nat \<times> 'x \<times> 'p \<Rightarrow> 'l module \<times> 'o \<times> 's" where
  "scheduled_update T kw epoch num_iter st ib =
     (let so = scheduler_step T (fractional_epoch epoch (fst ib) num_iter)
                 (snd (snd st)) (fst (snd st));
          mo = backward_step T kw (fst (snd ib)) (snd (snd ib)) (fst st) (snd so)
      in (fst mo, snd mo, fst so))"

definition scheduled_epoch ::
  "('l, 'o, 's, 'x, 'p) torch \<Rightarrow> kwargs \<Rightarrow> ('x \<times> 'p) list \<Rightarrow> 'l module \<times> 'o \<times> 's \<Rightarrow> nat
     \<Rightarrow> 'l module \<times> 'o \<times> 's" where
  "scheduled_epoch T kw batches st epoch =
     (let st' = foldl (scheduled_update T kw epoch (length batches))
                  ((fst st)\<lparr>training := True\<rparr>, snd st) (enumerate 0 batches)
      in ((fst st')\<lparr>training := False\<rparr>, snd st'))"

text \<open>The arguments of the scheduler's steps in a log of calls, in order.\<close>

fun step_arguments :: "event list \<Rightarrow> real list" where
  "step_arguments [] = []"
| "step_arguments (Scheduler_step x # es) = x # step_arguments es"
| "step_arguments (Optimizer_step # es) = step_arguments es"

text \<open>
  One trial of each tuner, in the spec's words. The L1 tuner resets the model's weights
  and runs the loop with that L1 strength switched on, every other keyword argument at
  its default and the optimizer as the trial before left it. The structure tuner builds
  a fresh model for the candidate and a fresh optimizer for its parameters and runs the
  loop with the default keyword arguments.
\<close>

definition l1_trial ::
  "('l, 'o, 's, 'x, 'p) torch \<Rightarrow> (phase \<Rightarrow> ('x \<times> 'p) list) \<Rightarrow> (phase \<Rightarrow> nat) \<Rightarrow> int
     \<Rightarrow> real \<Rightarrow> ('l, 'o, 's) world
     \<Rightarrow> (error + real list \<times> real list \<times> real) \<times> ('l, 'o, 's) world" where
  "l1_trial T dataloaders datasets_len nepochs strength w =
     train_val T dataloaders datasets_len nepochs
       (default_kwargs\<lparr>L1lambda := strength, L1norm := True\<rparr>)
       (w\<lparr>model := module_apply (weight_reset T) (model w)\<rparr>)"

definition structure_trial ::
  "('l, 'o, 's, 'x, 'p) torch \<Rightarrow> ('c \<Rightarrow> 'l module) \<Rightarrow> (tensor list \<Rightarrow> 'k \<Rightarrow> 'o)
     \<Rightarrow> (phase \<Rightarrow> ('x \<times> 'p) list) \<Rightarrow> (phase \<Rightarrow> nat) \<Rightarrow> int \<Rightarrow> 'k
     \<Rightarrow> 'c \<Rightarrow> ('l, 'o, 's) world
     \<Rightarrow> (error + real list \<times> real list \<times> real) \<times> ('l, 'o, 's) world" where
  "structure_trial T DNN AdamW dataloaders datasets_len nepochs adamw_kw candidate w =
     train_val T dataloaders datasets_len nepochs default_kwargs
       (w\<lparr>model := DNN candidate,
          optimizer := AdamW (parameters T (DNN candidate)) adamw_kw\<rparr>)"

text \<open>
  The objects before trial \<open>j\<close>, when the trials run one after the other on what the
  trial before left, and the best validation loss trial \<open>j\<close> records (\<open>None\<close> when it
  raises).
\<close>

fun world_before :: "('c \<Rightarrow> 'w \<Rightarrow> 'r \<times> 'w) \<Rightarrow> 'c list \<Rightarrow> 'w \<Rightarrow> nat \<Rightarrow> 'w" where
  "world_before trial cands w 0 = w"
| "world_before trial cands w (Suc j) =
     snd (trial (cands ! j) (world_before trial cands w j))"

definition recorded_loss ::
  "('c \<Rightarrow> 'w \<Rightarrow> (error + real list \<times> real list \<times> real) \<times> 'w) \<Rightarrow> 'c list \<Rightarrow> 'w \<Rightarrow> nat
     \<Rightarrow> real option" where
  "recorded_loss trial cands w j =
     (case fst (trial (cands ! j) (world_before trial cands w j)) of
        Inl e \<Rightarrow> None
      | Inr r \<Rightarrow> Some (snd (snd r)))"

text \<open>The loop both tuners share: try the candidates in turn, record, stop on an error.\<close>

fun trials_loop ::
  "('c \<Rightarrow> 'w \<Rightarrow> (error + real list \<times> real list \<times> real) \<times> 'w) \<Rightarrow> 'c list \<Rightarrow> real list \<Rightarrow> 'w
     \<Rightarrow> (error + real list) \<times> 'w" where
  "trials_loop trial [] h w = (Inr h, w)"
| "trials_loop trial (c # cs) h w =
     (case trial c w of
        (Inl e, w2) \<Rightarrow> (Inl e, w2)
      | (Inr r, w2) \<Rightarrow> trials_loop trial cs (h @ [snd (snd r)]) w2)"

section \<open>A small instance to run the code on\<close>

text \<open>
  A model of layers that hold one weight each and answer with the sum of their weights
  times the input; a squared-error criterion; an optimizer that counts its steps and
  adds the count to every weight; a scheduler that adds up the arguments of its steps and
  doubles the optimizer's count; exact tensor arithmetic; the only directory that exists
  is \<open>out\<close>.
\<close>

definition toy :: "(real, nat, real, real, real) torch" where
  "toy =
     \<lparr>fc0_weight = (\<lambda>m. map snd (modules m)),
      parameters = (\<lambda>m. map (\<lambda>l. [snd l]) (modules m)),
      reset_parameters = (\<lambda>l. 0),
      forward = (\<lambda>m x. sum_list (map snd (modules m)) * x),
      criterion = (\<lambda>p t. (p - t)\<^sup>2),
      size0 = (\<lambda>x. 1),
      backward_step =
        (\<lambda>kw x t m opt.
           (m\<lparr>modules := map (\<lambda>l. (fst l, snd l + real (Suc opt))) (modules m)\<rparr>, Suc opt)),
      scheduler_step = (\<lambda>x s opt. (s + x, 2 * opt)),
      path_exists = (\<lambda>p. p = ''out''),
      tensor_add = (+), tensor_mul = (*), tensor_div = (/)\<rparr>"

definition toy_world :: "(real, nat, real) world" where
  "toy_world =
     \<lparr>model = \<lparr>modules = [(Linear, 0)], training = False\<rparr>, optimizer = 0,
      lr_scheduler = 0, files = (\<lambda>p. None), calls = []\<rparr>"

text \<open>
  The same instance with the Poisson negative log-likelihood of an input that is a
  logarithm, \<open>exp(input) - target * input\<close>, as criterion.
\<close>

definition toy_pll :: "(real, nat, real, real, real) torch" where
  "toy_pll = toy\<lparr>criterion := (\<lambda>p t. exp p - t * p)\<rparr>"

text \<open>
  For the structure tuner: a structure is a number of layers of weight 1, and a new
  optimizer starts counting at its keyword argument.
\<close>

definition toy_DNN :: "nat \<Rightarrow> real module" where
  "toy_DNN n = \<lparr>modules = replicate n (Linear, 1), training = True\<rparr>"

definition toy_AdamW :: "tensor list \<Rightarrow> nat \<Rightarrow> nat" where
  "toy_AdamW params adamw_kw = adamw_kw"

section \<open>Regularisation never lowers the loss for non-negative strengths\<close>

lemma l2_loop_Some: "l2_loop (Some r) Ws = Some (r + (\<Sum>W\<leftarrow>Ws. norm_2 W))"
  by (induction Ws arbitrary: r) (simp_all add: add.assoc)

lemma norm_p1_nonneg: "0 \<le> norm_p1 W"
  unfolding norm_p1_def by (induction W) simp_all

lemma norm_2_nonneg: "0 \<le> norm_2 W"
proof -
  have "0 \<le> (\<Sum>x\<leftarrow>W. x\<^sup>2)" by (induction W) simp_all
  then show ?thesis unfolding norm_2_def by simp
qed

lemma sum_norm_2_nonneg: "0 \<le> (\<Sum>W\<leftarrow>Ws. norm_2 W)"
  by (induction Ws) (simp_all add: norm_2_nonneg)

text \<open>
  C4, as the code has it. With a negative strength the penalty is negative and the
  result is below the base loss:
\<close>

theorem add_regularization_negative_lambda:
  "add_regularization toy \<lparr>modules = [(Linear, 1)], training = True\<rparr> 0 True False (- 1) 1
     = Inr (- 1)"
  by (simp add: add_regularization_def toy_def norm_p1_def)

text \<open>
  C4, amended: for every model, every base loss, all four combinations of the flags
  \<open>L1norm\<close> and \<open>L2norm\<close> and all strengths \<open>L1lambda\<close>, \<open>L2lambda\<close> that are not
  negative, \<open>add_regularization\<close> returns a loss greater than or equal to the base loss;
  the one case where it returns nothing is the \<open>TypeError\<close> of the L2 penalty on a model
  without parameters.
\<close>

theorem add_regularization_nonneg_lambda:
  assumes "0 \<le> l1lambda" and "0 \<le> l2lambda"
  shows "case add_regularization T m loss l1norm l2norm l1lambda l2lambda of
           Inr loss' \<Rightarrow> loss \<le> loss'
         | Inl e \<Rightarrow> e = TypeError \<and> l2norm \<and> parameters T m = []"
proof -
  have a: "0 \<le> l1lambda * norm_p1 (fc0_weight T m)"
    using assms(1) norm_p1_nonneg by simp
  have b: "0 \<le> l2lambda * (\<Sum>W\<leftarrow>parameters T m. norm_2 W)"
    using assms(2) sum_norm_2_nonneg by simp
  show ?thesis
    using a b
    by (cases "parameters T m") (simp_all add: add_regularization_def l2_loop_Some Let_def)
qed

theorem add_regularization_nonneg_lambda_witness:
  "(0::real) \<le> 1 \<and> (0::real) \<le> 2
   \<and> add_regularization toy \<lparr>modules = [(Linear, 3), (Linear, - 4)], training = True\<rparr>
         10 True True 1 2 = Inr 31"
  using add_regularization_nonneg_lambda [where ?l1lambda = 1 and ?l2lambda = 2 and T = toy
      and m = "\<lparr>modules = [(Linear, 3), (Linear, - 4)], training = True\<rparr>"
      and loss = 10 and ?l1norm = True and ?l2norm = True]
  by (simp add: add_regularization_def toy_def norm_p1_def norm_2_def)

section \<open>What the epoch loop leaves in the local variables\<close>

lemma epoch_body_Inr:
  assumes "epoch_body T dl len kw n e L w = (Inr L', w')"
  shows "\<exists>r w2. train_batches T kw e n (dl train) 0 0
                   (w\<lparr>model := (model w)\<lparr>training := True\<rparr>\<rparr>) = (Inr r, w2)
     \<and> w' = w2\<lparr>model := (model w2)\<lparr>training := False\<rparr>\<rparr>
     \<and> len train \<noteq> 0 \<and> len valid \<noteq> 0
     \<and> train_losses L' = train_losses L @ [r / real (len train)]
     \<and> valid_losses L' = valid_losses L @ [epoch_valid_loss T dl len (model w')]
     \<and> best_val_loss L' = min (best_val_loss L) (epoch_valid_loss T dl len (model w'))
     \<and> best_model_wts L' =
          (if epoch_valid_loss T dl len (model w') < best_val_loss L \<and> output_path kw \<noteq> None
           then Some (model w') else best_model_wts L)
     \<and> early_stopping L' =
          early_stopping_call (epoch_valid_loss T dl len (model w')) (early_stopping L)"
  using assms
  by (auto simp: epoch_body_def epoch_valid_loss_def Let_def min_def
      split: prod.splits sum.splits if_splits)

lemma epoch_loop_Cons_Inr:
  assumes "epoch_loop T dl len kw n (e # es) L w = (Inr L', w')"
  shows "\<exists>L1 w1. epoch_body T dl len kw n e L w = (Inr L1, w1)
     \<and> (if early_stop (early_stopping L1) then L' = L1 \<and> w' = w1
        else epoch_loop T dl len kw n es L1 w1 = (Inr L', w'))"
  using assms by (auto split: prod.splits sum.splits if_splits)

lemma foldl_min_Min:
  "foldl min (b::real) vs = (if vs = [] then b else min b (Min (set vs)))"
proof (induction vs arbitrary: b)
  case Nil
  then show ?case by simp
next
  case (Cons v vs)
  then show ?case by (cases "vs = []") (simp_all add: min.assoc)
qed

lemma epoch_loop_losses:
  assumes "epoch_loop T dl len kw n es L w = (Inr L', w')"
  shows "\<exists>vs. valid_losses L' = valid_losses L @ vs
     \<and> length (train_losses L') = length (train_losses L) + length vs
     \<and> length vs \<le> length es \<and> (es \<noteq> [] \<longrightarrow> vs \<noteq> [])
     \<and> best_val_loss L' = foldl min (best_val_loss L) vs
     \<and> early_stopping L' = monitor_after (early_stopping L) vs
     \<and> (length vs < length es \<longrightarrow> early_stop (early_stopping L'))
     \<and> (\<forall>k. 0 < k \<and> k < length vs
            \<longrightarrow> \<not> early_stop (monitor_after (early_stopping L) (take k vs)))"
  using assms
proof (induction es arbitrary: L w)
  case Nil
  then show ?case by (simp add: monitor_after_def)
next
  case (Cons e es)
  from epoch_loop_Cons_Inr [OF Cons.prems] obtain L1 w1 where
    body: "epoch_body T dl len kw n e L w = (Inr L1, w1)" and
    rest: "if early_stop (early_stopping L1) then L' = L1 \<and> w' = w1
           else epoch_loop T dl len kw n es L1 w1 = (Inr L', w')"
    by blast
  define v where "v = epoch_valid_loss T dl len (model w1)"
  from epoch_body_Inr [OF body] have
    tl: "length (train_losses L1) = length (train_losses L) + 1" and
    vl: "valid_losses L1 = valid_losses L @ [v]" and
    bv: "best_val_loss L1 = min (best_val_loss L) v" and
    mo: "early_stopping L1 = early_stopping_call v (early_stopping L)"
    unfolding v_def by auto
  show ?case
  proof (cases "early_stop (early_stopping L1)")
    case True
    with rest have "L' = L1" by simp
    with tl vl bv mo True show ?thesis
      by (intro exI [of _ "[v]"]) (simp add: monitor_after_def)
  next
    case False
    with rest have "epoch_loop T dl len kw n es L1 w1 = (Inr L', w')" by simp
    from Cons.IH [OF this] obtain vs where
      a: "valid_losses L' = valid_losses L1 @ vs" and
      b: "length (train_losses L') = length (train_losses L1) + length vs" and
      c: "length vs \<le> length es" and
      d: "best_val_loss L' = foldl min (best_val_loss L1) vs" and
      m: "early_stopping L' = monitor_after (early_stopping L1) vs" and
      f: "length vs < length es \<longrightarrow> early_stop (early_stopping L')" and
      g: "\<forall>k. 0 < k \<and> k < length vs
            \<longrightarrow> \<not> early_stop (monitor_after (early_stopping L1) (take k vs))"
      by blast
    have h: "\<not> early_stop (monitor_after (early_stopping L) (take k (v # vs)))"
      if "0 < k" and "k < length (v # vs)" for k
    proof (cases k)
      case 0
      with that show ?thesis by simp
    next
      case (Suc j)
      show ?thesis
      proof (cases "j = 0")
        case True
        with Suc False mo show ?thesis by (simp add: monitor_after_def)
      next
        case False
        with Suc that g mo show ?thesis by (simp add: monitor_after_def)
      qed
    qed
    show ?thesis
      using a b c d m f h tl vl bv mo
      by (intro exI [of _ "v # vs"]) (simp add: monitor_after_def)
  qed
qed

lemma train_val_Inr:
  assumes "train_val T dl len nepochs kw w = (Inr (tls, vls, b), w')"
  shows "\<exists>L w''. epoch_loop T dl len kw (length (dl train)) [0..<nat nepochs]
                    (initial_locals kw w) w = (Inr L, w'')
     \<and> tls = train_losses L \<and> vls = valid_losses L \<and> b = best_val_loss L
     \<and> w' = (case (output_path kw, best_model_wts L) of
               (Some p, Some wts) \<Rightarrow> w''\<lparr>files := (files w'')(p \<mapsto> wts)\<rparr>
             | _ \<Rightarrow> w'')"
  using assms
  by (auto simp: train_val_def Let_def
      split: option.split_asm prod.split_asm sum.split_asm if_split_asm)

lemmas toy_run =
  train_val_def initial_locals_def epoch_body_def valid_batches_def
  add_regularization_def EarlyStopping_def early_stopping_call_def default_kwargs_def
  toy_def toy_world_def Let_def upt_rec norm_p1_def

section \<open>The best validation loss\<close>

text \<open>
  C1: the returned \<open>best_val_loss\<close> is to be the minimum of the returned \<open>valid_losses\<close>.
  The code starts \<open>best_val_loss\<close> at 1.0e6, "a very large number" standing for
  infinity, and only a smaller loss replaces it. At a run of one epoch whose validation
  loss is 3996001 it returns 1.0e6, which is not the minimum of the returned validation
  losses: the code fails the claim there.
\<close>

theorem train_val_best_val_loss_sentinel:
  "fst (train_val toy (\<lambda>ph. [(1, 2000)]) (\<lambda>ph. 1) 1 default_kwargs toy_world)
     = Inr ([4000000], [3996001], 1000000)
   \<and> (1000000::real) \<noteq> Min (set [3996001])"
  by (simp add: toy_run)

text \<open>
  What the code returns in general: the smaller of 1.0e6 and the minimum of the returned
  validation losses. The two differ only when no recorded loss is below 1.0e6.
\<close>

lemma train_val_best_val_loss:
  assumes "train_val T dl len nepochs kw w = (Inr (tls, vls, b), w')" and "0 < nepochs"
  shows "vls \<noteq> [] \<and> b = min 1000000 (Min (set vls))"
proof -
  from train_val_Inr [OF assms(1)] obtain L w'' where
    run: "epoch_loop T dl len kw (length (dl train)) [0..<nat nepochs]
            (initial_locals kw w) w = (Inr L, w'')" and
    eqs: "vls = valid_losses L" "b = best_val_loss L"
    by blast
  from epoch_loop_losses [OF run] obtain vs where
    a: "valid_losses L = valid_losses (initial_locals kw w) @ vs" and
    b: "[0..<nat nepochs] \<noteq> [] \<longrightarrow> vs \<noteq> []" and
    c: "best_val_loss L = foldl min (best_val_loss (initial_locals kw w)) vs"
    by blast
  from assms(2) b have "vs \<noteq> []" by simp
  with a c eqs show ?thesis
    by (simp add: initial_locals_def foldl_min_Min)
qed

lemma train_val_best_val_loss_run:
  "fst (train_val toy (\<lambda>ph. [(1, 4)]) (\<lambda>ph. 1) 2 default_kwargs toy_world)
     = Inr ([16, 9], [9, 1], 1)
   \<and> (0::int) < 2 \<and> [9, 1::real] \<noteq> [] \<and> (1::real) = min 1000000 (Min (set [9, 1]))"
proof -
  have res: "fst (train_val toy (\<lambda>ph. [(1, 4)]) (\<lambda>ph. 1) 2 default_kwargs toy_world)
    = Inr ([16, 9], [9, 1], 1)"
    by (simp add: toy_run)
  then have run: "train_val toy (\<lambda>ph. [(1, 4)]) (\<lambda>ph. 1) 2 default_kwargs toy_world
    = (Inr ([16, 9], [9, 1], 1),
       snd (train_val toy (\<lambda>ph. [(1, 4)]) (\<lambda>ph. 1) 2 default_kwargs toy_world))"
    by (simp add: prod_eq_iff)
  from train_val_best_val_loss [OF run] res show ?thesis by simp
qed

section \<open>The lengths of the loss sequences\<close>

text \<open>
  C3: whenever \<open>train_val\<close> returns, the train-loss and valid-loss sequences have the
  same length, that length is at most \<open>nepochs\<close> (\<open>nat nepochs\<close> is \<open>nepochs\<close> for every
  epoch count that is not negative; a negative one runs no epoch), and it is \<open>nepochs\<close>
  unless the monitor's flag was set by the last recorded loss; the flag was not set by
  any earlier loss, so what is returned are the losses up to the stopping epoch.
\<close>

theorem train_val_lengths:
  assumes "train_val T dl len nepochs kw w = (Inr (tls, vls, b), w')"
  shows "length tls = length vls \<and> length vls \<le> nat nepochs
     \<and> (length vls < nat nepochs \<longrightarrow> early_stop (monitor_after (EarlyStopping 10 True) vls))
     \<and> (\<forall>k. 0 < k \<and> k < length vls
            \<longrightarrow> \<not> early_stop (monitor_after (EarlyStopping 10 True) (take k vls)))"
proof -
  from train_val_Inr [OF assms(1)] obtain L w'' where
    run: "epoch_loop T dl len kw (length (dl train)) [0..<nat nepochs]
            (initial_locals kw w) w = (Inr L, w'')" and
    eqs: "tls = train_losses L" "vls = valid_losses L"
    by blast
  from epoch_loop_losses [OF run] obtain vs where
    a: "valid_losses L = valid_losses (initial_locals kw w) @ vs" and
    b: "length (train_losses L) = length (train_losses (initial_locals kw w)) + length vs" and
    c: "length vs \<le> length [0..<nat nepochs]" and
    m: "early_stopping L = monitor_after (early_stopping (initial_locals kw w)) vs" and
    f: "length vs < length [0..<nat nepochs] \<longrightarrow> early_stop (early_stopping L)" and
    g: "\<forall>k. 0 < k \<and> k < length vs
          \<longrightarrow> \<not> early_stop (monitor_after (early_stopping (initial_locals kw w)) (take k vs))"
    by blast
  from a have vs: "vs = vls" by (simp add: eqs initial_locals_def)
  from b c m f g show ?thesis
    unfolding vs eqs [symmetric] by (simp add: initial_locals_def)
qed

text \<open>
  A run of at most 20 epochs on empty loaders: every validation loss is 0, the monitor
  counts ten epochs without improvement after the first and stops the loop after the
  eleventh.
\<close>

theorem train_val_lengths_witness:
  "fst (train_val toy (\<lambda>ph. []) (\<lambda>ph. 1) 20 default_kwargs toy_world)
     = Inr ([0, 0, 0, 0, 0, 0, 0, 0, 0, 0, 0], [0, 0, 0, 0, 0, 0, 0, 0, 0, 0, 0], 0)
   \<and> length [0, 0, 0, 0, 0, 0, 0, 0, 0, 0, 0 :: real] < nat 20
   \<and> early_stop (monitor_after (EarlyStopping 10 True) [0, 0, 0, 0, 0, 0, 0, 0, 0, 0, 0])
   \<and> \<not> early_stop (monitor_after (EarlyStopping 10 True)
          (take 10 [0, 0, 0, 0, 0, 0, 0, 0, 0, 0, 0]))"
proof -
  have res: "fst (train_val toy (\<lambda>ph. []) (\<lambda>ph. 1) 20 default_kwargs toy_world)
     = Inr ([0, 0, 0, 0, 0, 0, 0, 0, 0, 0, 0], [0, 0, 0, 0, 0, 0, 0, 0, 0, 0, 0], 0)"
    by (simp add: toy_run)
  then have run: "train_val toy (\<lambda>ph. []) (\<lambda>ph. 1) 20 default_kwargs toy_world
    = (Inr ([0, 0, 0, 0, 0, 0, 0, 0, 0, 0, 0], [0, 0, 0, 0, 0, 0, 0, 0, 0, 0, 0], 0),
       snd (train_val toy (\<lambda>ph. []) (\<lambda>ph. 1) 20 default_kwargs toy_world))"
    by (simp add: prod_eq_iff)
  from train_val_lengths [OF run] have
    a: "early_stop (monitor_after (EarlyStopping 10 True) [0, 0, 0, 0, 0, 0, 0, 0, 0, 0, 0])"
    and b: "\<forall>k. 0 < k \<and> k < length [0, 0, 0, 0, 0, 0, 0, 0, 0, 0, 0 :: real]
      \<longrightarrow> \<not> early_stop (monitor_after (EarlyStopping 10 True)
             (take k [0, 0, 0, 0, 0, 0, 0, 0, 0, 0, 0]))"
    by simp_all
  from b [rule_format, of 10] have
    "\<not> early_stop (monitor_after (EarlyStopping 10 True)
         (take 10 [0, 0, 0, 0, 0, 0, 0, 0, 0, 0, 0]))"
    by simp
  with a res show ?thesis by simp
qed

section \<open>The scheduler is stepped once per training batch\<close>

lemma upt_add_Suc: "[i..<i + Suc n] = i # [Suc i..<Suc i + n]"
  by (simp add: upt_conv_Cons del: upt_Suc)

lemma train_batches_scheduled:
  assumes "train_batches T kw e n bs i r w = (Inr r', w')" and "scheduler kw"
  shows "(model w', optimizer w', lr_scheduler w')
       = foldl (scheduled_update T kw e n) (model w, optimizer w, lr_scheduler w)
           (enumerate i bs)
     \<and> calls w' = calls w @
         concat (map (\<lambda>j. [Scheduler_step (fractional_epoch e j n), Optimizer_step])
           [i..<i + length bs])"
  using assms
proof (induction bs arbitrary: i r w)
  case Nil
  then show ?case by simp
next
  case (Cons bt bs)
  obtain data target where bt: "bt = (data, target)" by (cases bt)
  define x where "x = real e + real i / real n"
  define w1 where "w1 = w\<lparr>optimizer := snd (scheduler_step T x (lr_scheduler w) (optimizer w)),
     lr_scheduler := fst (scheduler_step T x (lr_scheduler w) (optimizer w)),
     calls := calls w @ [Scheduler_step x]\<rparr>"
  define w2 where "w2 =
     w1\<lparr>model := fst (backward_step T kw data target (model w1) (optimizer w1)),
        optimizer := snd (backward_step T kw data target (model w1) (optimizer w1)),
        calls := calls w1 @ [Optimizer_step]\<rparr>"
  from Cons.prems obtain loss' where
    rec: "train_batches T kw e n bs (Suc i) (r + loss' * real (size0 T data)) w2 = (Inr r', w')"
    unfolding bt w1_def w2_def x_def
    by (auto simp: Let_def split: sum.split_asm)
  have c2: "calls w2 = calls w @ [Scheduler_step (fractional_epoch e i n), Optimizer_step]"
    by (simp add: w2_def w1_def x_def fractional_epoch_def)
  have s2: "(model w2, optimizer w2, lr_scheduler w2)
      = scheduled_update T kw e n (model w, optimizer w, lr_scheduler w) (i, data, target)"
    by (simp add: w2_def w1_def x_def fractional_epoch_def scheduled_update_def Let_def)
  from Cons.IH [OF rec Cons.prems(2)] have
    st: "(model w', optimizer w', lr_scheduler w')
       = foldl (scheduled_update T kw e n) (model w2, optimizer w2, lr_scheduler w2)
           (enumerate (Suc i) bs)" and
    cl: "calls w' = calls w2 @
       concat (map (\<lambda>j. [Scheduler_step (fractional_epoch e j n), Optimizer_step])
         [Suc i..<Suc i + length bs])"
    by blast+
  from st s2 have "(model w', optimizer w', lr_scheduler w')
       = foldl (scheduled_update T kw e n) (model w, optimizer w, lr_scheduler w)
           (enumerate i (bt # bs))"
    by (simp add: bt)
  moreover from cl c2 have "calls w' = calls w @
         concat (map (\<lambda>j. [Scheduler_step (fractional_epoch e j n), Optimizer_step])
           [i..<i + length (bt # bs)])"
    by (simp only: length_Cons upt_add_Suc list.map concat.simps append_assoc append.simps)
  ultimately show ?case by blast
qed

lemma epoch_body_scheduled:
  assumes "epoch_body T dl len kw (length (dl train)) e L w = (Inr L', w')" and "scheduler kw"
  shows "(model w', optimizer w', lr_scheduler w')
       = scheduled_epoch T kw (dl train) (model w, optimizer w, lr_scheduler w) e
     \<and> calls w' = calls w @ epoch_events e (length (dl train))"
proof -
  from epoch_body_Inr [OF assms(1)] obtain r w2 where
    tb: "train_batches T kw e (length (dl train)) (dl train) 0 0
           (w\<lparr>model := (model w)\<lparr>training := True\<rparr>\<rparr>) = (Inr r, w2)" and
    w': "w' = w2\<lparr>model := (model w2)\<lparr>training := False\<rparr>\<rparr>"
    by blast
  from train_batches_scheduled [OF tb assms(2)] have
    st: "(model w2, optimizer w2, lr_scheduler w2)
       = foldl (scheduled_update T kw e (length (dl train)))
           ((model w)\<lparr>training := True\<rparr>, optimizer w, lr_scheduler w)
           (enumerate 0 (dl train))" and
    cl: "calls w2 = calls w @
       concat (map (\<lambda>j. [Scheduler_step (fractional_epoch e j (length (dl train))),
                         Optimizer_step]) [0..<0 + length (dl train)])"
    by simp_all
  from st [symmetric] w' have "(model w', optimizer w', lr_scheduler w')
       = scheduled_epoch T kw (dl train) (model w, optimizer w, lr_scheduler w) e"
    by (simp add: scheduled_epoch_def Let_def)
  moreover from cl w' have "calls w' = calls w @ epoch_events e (length (dl train))"
    by (simp add: epoch_events_def)
  ultimately show ?thesis by blast
qed

lemma epoch_loop_scheduled:
  assumes "epoch_loop T dl len kw (length (dl train)) es L w = (Inr L', w')" and "scheduler kw"
  shows "\<exists>k\<le>length es. length (valid_losses L') = length (valid_losses L) + k
     \<and> (model w', optimizer w', lr_scheduler w')
         = foldl (scheduled_epoch T kw (dl train)) (model w, optimizer w, lr_scheduler w)
             (take k es)
     \<and> calls w' = calls w @ concat (map (\<lambda>e. epoch_events e (length (dl train))) (take k es))"
  using assms(1)
proof (induction es arbitrary: L w)
  case Nil
  then show ?case by simp
next
  case (Cons e es)
  from epoch_loop_Cons_Inr [OF Cons.prems] obtain L1 w1 where
    body: "epoch_body T dl len kw (length (dl train)) e L w = (Inr L1, w1)" and
    rest: "if early_stop (early_stopping L1) then L' = L1 \<and> w' = w1
           else epoch_loop T dl len kw (length (dl train)) es L1 w1 = (Inr L', w')"
    by blast
  from epoch_body_Inr [OF body] have
    vl: "length (valid_losses L1) = length (valid_losses L) + 1" by auto
  from epoch_body_scheduled [OF body assms(2)] have
    st: "(model w1, optimizer w1, lr_scheduler w1)
       = scheduled_epoch T kw (dl train) (model w, optimizer w, lr_scheduler w) e" and
    cs: "calls w1 = calls w @ epoch_events e (length (dl train))"
    by blast+
  show ?case
  proof (cases "early_stop (early_stopping L1)")
    case True
    with rest vl cs st show ?thesis
      by (intro exI [of _ 1]) simp
  next
    case False
    with rest have "epoch_loop T dl len kw (length (dl train)) es L1 w1 = (Inr L', w')"
      by simp
    from Cons.IH [OF this] obtain k where
      "k \<le> length es" "length (valid_losses L') = length (valid_losses L1) + k"
      "(model w', optimizer w', lr_scheduler w')
         = foldl (scheduled_epoch T kw (dl train)) (model w1, optimizer w1, lr_scheduler w1)
             (take k es)"
      "calls w' = calls w1 @ concat (map (\<lambda>e. epoch_events e (length (dl train))) (take k es))"
      by blast
    with vl cs st show ?thesis
      by (intro exI [of _ "Suc k"]) simp
  qed
qed

lemma step_arguments_append:
  "step_arguments (xs @ ys) = step_arguments xs @ step_arguments ys"
  by (induction xs rule: step_arguments.induct) simp_all

lemma step_arguments_epoch_events_from:
  "step_arguments (concat (map (\<lambda>i. [Scheduler_step (f i), Optimizer_step]) js)) = map f js"
  by (induction js) simp_all

lemma step_arguments_epoch_events:
  "step_arguments (epoch_events epoch n) = map (\<lambda>i. fractional_epoch epoch i n) [0..<n]"
  unfolding epoch_events_def by (rule step_arguments_epoch_events_from)

lemma fractional_epoch_increasing:
  "sorted_wrt (<) (map (\<lambda>i. fractional_epoch epoch i n) [0..<n])"
  by (auto simp: sorted_wrt_iff_nth_less fractional_epoch_def divide_strict_right_mono)

text \<open>
  C6: when a scheduler is passed and \<open>train_val\<close> returns, the model, the optimizer and
  the scheduler are what comes of stepping the scheduler once per training batch, before
  that batch's optimizer step and with argument \<open>epoch + i/num_iter\<close> (\<open>i\<close> the zero-based
  index of the batch, \<open>num_iter\<close> the number of training batches), for every epoch that
  ran; the calls made are those steps in that order and nothing else; and the arguments
  of the scheduler's steps of an epoch are, in the order of the calls, strictly
  increasing.
\<close>

theorem train_val_scheduler_steps:
  assumes "train_val T dl len nepochs kw w = (Inr (tls, vls, b), w')" and "scheduler kw"
  shows "(model w', optimizer w', lr_scheduler w')
       = foldl (scheduled_epoch T kw (dl train)) (model w, optimizer w, lr_scheduler w)
           [0..<length vls]
     \<and> calls w' = calls w @
         concat (map (\<lambda>epoch. epoch_events epoch (length (dl train))) [0..<length vls])
     \<and> (\<forall>epoch. step_arguments (epoch_events epoch (length (dl train)))
                   = map (\<lambda>i. fractional_epoch epoch i (length (dl train)))
                       [0..<length (dl train)]
           \<and> sorted_wrt (<) (step_arguments (epoch_events epoch (length (dl train)))))"
proof -
  from train_val_Inr [OF assms(1)] have
    "\<exists>L w''. epoch_loop T dl len kw (length (dl train)) [0..<nat nepochs]
            (initial_locals kw w) w = (Inr L, w'')
       \<and> vls = valid_losses L \<and> calls w' = calls w''
       \<and> model w' = model w'' \<and> optimizer w' = optimizer w''
       \<and> lr_scheduler w' = lr_scheduler w''"
    by (auto split: option.splits)
  then obtain L w'' where
    run: "epoch_loop T dl len kw (length (dl train)) [0..<nat nepochs]
            (initial_locals kw w) w = (Inr L, w'')" and
    eqs: "vls = valid_losses L" and
    c: "calls w' = calls w''" "model w' = model w''" "optimizer w' = optimizer w''"
       "lr_scheduler w' = lr_scheduler w''"
    by blast
  from epoch_loop_scheduled [OF run assms(2)] obtain k where
    k: "k \<le> length [0..<nat nepochs]"
    "length (valid_losses L) = length (valid_losses (initial_locals kw w)) + k" and
    st: "(model w'', optimizer w'', lr_scheduler w'')
         = foldl (scheduled_epoch T kw (dl train)) (model w, optimizer w, lr_scheduler w)
             (take k [0..<nat nepochs])" and
    cl: "calls w'' = calls w @
       concat (map (\<lambda>e. epoch_events e (length (dl train))) (take k [0..<nat nepochs]))"
    by blast
  from k eqs have tk: "take k [0..<nat nepochs] = [0..<length vls]"
    by (simp add: initial_locals_def)
  from st c tk have "(model w', optimizer w', lr_scheduler w')
       = foldl (scheduled_epoch T kw (dl train)) (model w, optimizer w, lr_scheduler w)
           [0..<length vls]"
    by simp
  moreover from cl c tk have "calls w' = calls w @
       concat (map (\<lambda>epoch. epoch_events epoch (length (dl train))) [0..<length vls])"
    by simp
  ultimately show ?thesis
    using fractional_epoch_increasing step_arguments_epoch_events by simp
qed

text \<open>
  Two epochs of two batches on the small instance: the scheduler has added up the
  arguments 0, 1/2, 1 and 3/2, and the optimizer's count shows each doubling before the
  step that follows it.
\<close>

theorem train_val_scheduler_steps_witness:
  "fst (train_val toy (\<lambda>ph. [(1, 4), (1, 4)]) (\<lambda>ph. 2) 2
          (default_kwargs\<lparr>scheduler := True\<rparr>) toy_world)
     = Inr ([25 / 2, 49 / 2], [0, 484], 0)
   \<and> scheduler (default_kwargs\<lparr>scheduler := True\<rparr>)
   \<and> lr_scheduler (snd (train_val toy (\<lambda>ph. [(1, 4), (1, 4)]) (\<lambda>ph. 2) 2
          (default_kwargs\<lparr>scheduler := True\<rparr>) toy_world)) = 3
   \<and> optimizer (snd (train_val toy (\<lambda>ph. [(1, 4), (1, 4)]) (\<lambda>ph. 2) 2
          (default_kwargs\<lparr>scheduler := True\<rparr>) toy_world)) = 15
   \<and> model (snd (train_val toy (\<lambda>ph. [(1, 4), (1, 4)]) (\<lambda>ph. 2) 2
          (default_kwargs\<lparr>scheduler := True\<rparr>) toy_world))
       = \<lparr>modules = [(Linear, 26)], training = False\<rparr>
   \<and> foldl (scheduled_epoch toy (default_kwargs\<lparr>scheduler := True\<rparr>) [(1, 4), (1, 4)])
        (model toy_world, optimizer toy_world, lr_scheduler toy_world) [0..<length [0, 484 :: real]]
       = (\<lparr>modules = [(Linear, 26)], training = False\<rparr>, 15, 3)
   \<and> calls (snd (train_val toy (\<lambda>ph. [(1, 4), (1, 4)]) (\<lambda>ph. 2) 2
          (default_kwargs\<lparr>scheduler := True\<rparr>) toy_world))
     = [Scheduler_step 0, Optimizer_step, Scheduler_step (1 / 2), Optimizer_step,
        Scheduler_step 1, Optimizer_step, Scheduler_step (3 / 2), Optimizer_step]"
proof -
  let ?kw = "default_kwargs\<lparr>scheduler := True\<rparr>"
  let ?r = "train_val toy (\<lambda>ph. [(1, 4), (1, 4)]) (\<lambda>ph. 2) 2 ?kw toy_world"
  have res: "fst ?r = Inr ([25 / 2, 49 / 2], [0, 484], 0)"
    by (simp add: toy_run)
  then have run: "?r = (Inr ([25 / 2, 49 / 2], [0, 484], 0), snd ?r)"
    by (simp add: prod_eq_iff)
  have sch: "scheduler ?kw" by simp
  have st: "lr_scheduler (snd ?r) = 3" "optimizer (snd ?r) = 15"
    "model (snd ?r) = \<lparr>modules = [(Linear, 26)], training = False\<rparr>"
    by (simp_all add: toy_run)
  from train_val_scheduler_steps [OF run sch] have
    a: "(model (snd ?r), optimizer (snd ?r), lr_scheduler (snd ?r))
       = foldl (scheduled_epoch toy ?kw [(1, 4), (1, 4)])
           (model toy_world, optimizer toy_world, lr_scheduler toy_world)
           [0..<length [0, 484 :: real]]" and
    b: "calls (snd ?r) = calls toy_world @
         concat (map (\<lambda>epoch. epoch_events epoch (length [(1, 4), (1, 4) :: real \<times> real]))
           [0..<length [0, 484 :: real]])"
    by simp_all
  from b have c: "calls (snd ?r)
     = [Scheduler_step 0, Optimizer_step, Scheduler_step (1 / 2), Optimizer_step,
        Scheduler_step 1, Optimizer_step, Scheduler_step (3 / 2), Optimizer_step]"
    by (simp add: epoch_events_def fractional_epoch_def toy_world_def upt_rec)
  from a st have d: "foldl (scheduled_epoch toy ?kw [(1, 4), (1, 4)])
        (model toy_world, optimizer toy_world, lr_scheduler toy_world) [0..<length [0, 484 :: real]]
       = (\<lparr>modules = [(Linear, 26)], training = False\<rparr>, 15, 3)"
    by simp
  from res sch st c d show ?thesis by (intro conjI)
qed

section \<open>What train_val raises, and the run of no epoch\<close>

lemma add_regularization_error:
  "add_regularization T m loss a b c d = Inl e \<Longrightarrow> e = TypeError"
  by (auto simp: add_regularization_def Let_def split: if_splits option.splits)

lemma train_batches_error:
  "train_batches T kw e n bs i r w = (Inl err, w') \<Longrightarrow> err = TypeError"
proof (induction bs arbitrary: i r w)
  case Nil
  then show ?case by simp
next
  case (Cons bt bs)
  obtain data target where bt: "bt = (data, target)" by (cases bt)
  from Cons.prems Cons.IH show ?case
    unfolding bt
    by (auto simp: Let_def split: sum.split_asm dest: add_regularization_error)
qed

lemma epoch_body_error:
  "epoch_body T dl len kw n e L w = (Inl err, w')
     \<Longrightarrow> err = TypeError \<or> err = ZeroDivisionError"
  by (auto simp: epoch_body_def Let_def split: prod.split_asm sum.split_asm if_split_asm
      dest: train_batches_error)

lemma epoch_loop_error:
  "epoch_loop T dl len kw n es L w = (Inl err, w')
     \<Longrightarrow> err = TypeError \<or> err = ZeroDivisionError"
proof (induction es arbitrary: L w)
  case Nil
  then show ?case by simp
next
  case (Cons e es)
  from Cons.prems Cons.IH show ?case
    by (auto split: prod.split_asm sum.split_asm if_split_asm dest: epoch_body_error)
qed






text \<open>
  C9: called with \<open>nepochs = 0\<close> and, if \<open>output_path\<close> is given, an existing directory,
  \<open>train_val\<close> returns two empty loss lists and \<open>best_val_loss = 1.0e6\<close>, and with an
  \<open>output_path\<close> it saves the model's weights as they were at the call under that path;
  nothing else changes.
\<close>

theorem train_val_zero_epochs:
  assumes "case output_path kw of None \<Rightarrow> True | Some p \<Rightarrow> path_exists T (dirname p)"
  shows "train_val T dl len 0 kw w
     = (Inr ([], [], 1000000),
        (case output_path kw of
           None \<Rightarrow> w
         | Some p \<Rightarrow> w\<lparr>files := (files w)(p \<mapsto> model w)\<rparr>))"
  using assms
  by (auto simp: train_val_def initial_locals_def Let_def split: option.splits)

theorem train_val_zero_epochs_witness:
  "path_exists toy (dirname ''out/model.pt'')
   \<and> train_val toy (\<lambda>ph. [(1, 4)]) (\<lambda>ph. 1) 0
        (default_kwargs\<lparr>output_path := Some ''out/model.pt''\<rparr>) toy_world
     = (Inr ([], [], 1000000),
        toy_world\<lparr>files := (files toy_world)(''out/model.pt'' \<mapsto> model toy_world)\<rparr>)"
  using train_val_zero_epochs [where T = toy and dl = "\<lambda>ph. [(1, 4)]" and len = "\<lambda>ph. 1"
      and kw = "default_kwargs\<lparr>output_path := Some ''out/model.pt''\<rparr>" and w = toy_world]
  by (simp add: toy_def dirname_def)

text \<open>The directory part of a bare file name is the empty string.\<close>

lemma dirname_bare_file_name: "dirname ''model.pt'' = []"
  by (simp add: dirname_def)

section \<open>The saved checkpoint and the best validation loss\<close>

text \<open>
  C2: the weights \<open>train_val\<close> saved, reloaded and passed to \<open>evaluate\<close> on the same
  validation split, are to give exactly the \<open>best_val_loss\<close> that \<open>train_val\<close> returned.
  \<open>evaluate\<close> calls \<open>criterion(target, model(data))\<close> where \<open>train_val\<close> calls
  \<open>criterion(outputs, target)\<close>. With the Poisson negative log-likelihood, one epoch
  and a validation batch of output 0 and target 1, \<open>train_val\<close> returns the best
  validation loss 1 and saves the weights that gave it; \<open>evaluate\<close> on these weights and
  the same split returns \<open>exp 1\<close>, even with exact tensor arithmetic: the code fails the
  claim there.
\<close>

theorem evaluate_swaps_criterion_arguments:
  "fst (train_val toy_pll (\<lambda>ph. [(0, 1)]) (\<lambda>ph. 1) 1
          (default_kwargs\<lparr>output_path := Some ''out/model.pt''\<rparr>) toy_world)
     = Inr ([1], [1], 1)
   \<and> files (snd (train_val toy_pll (\<lambda>ph. [(0, 1)]) (\<lambda>ph. 1) 1
          (default_kwargs\<lparr>output_path := Some ''out/model.pt''\<rparr>) toy_world)) ''out/model.pt''
     = Some \<lparr>modules = [(Linear, 1)], training = False\<rparr>
   \<and> evaluate toy_pll \<lparr>modules = [(Linear, 1)], training = False\<rparr>
        (\<lambda>ph. [(0, 1)]) (\<lambda>ph. 1) valid = Inr (exp 1)
   \<and> exp 1 \<noteq> (1::real)"
  by (simp add: toy_pll_def toy_run dirname_def evaluate_def)

text \<open>
  The first value of \<open>best_val_loss\<close> breaks the same property with a symmetric
  criterion: when no epoch's validation loss is below 1.0e6, the weights saved are the
  copy taken before the first epoch and the loss returned is 1.0e6, while \<open>evaluate\<close> on
  the saved weights gives 4000000.
\<close>

lemma checkpoint_of_sentinel_run:
  "fst (train_val toy (\<lambda>ph. [(1, 2000)]) (\<lambda>ph. 1) 1
          (default_kwargs\<lparr>output_path := Some ''out/model.pt''\<rparr>) toy_world)
     = Inr ([4000000], [3996001], 1000000)
   \<and> files (snd (train_val toy (\<lambda>ph. [(1, 2000)]) (\<lambda>ph. 1) 1
          (default_kwargs\<lparr>output_path := Some ''out/model.pt''\<rparr>) toy_world)) ''out/model.pt''
     = Some (model toy_world)
   \<and> evaluate toy (model toy_world) (\<lambda>ph. [(1, 2000)]) (\<lambda>ph. 1) valid = Inr 4000000"
  by (simp add: toy_run dirname_def evaluate_def)

section \<open>The guard of the tuners\<close>

lemma train_val_error:
  assumes "fst (train_val T dl len nepochs kw w) = Inl err"
  shows "err = TypeError \<or> err = ZeroDivisionError \<or> (\<exists>msg. err = RuntimeError msg)"
proof -
  obtain r w'' where el: "epoch_loop T dl len kw (length (dl train)) [0..<nat nepochs]
      (initial_locals kw w) w = (r, w'')"
    by (cases "epoch_loop T dl len kw (length (dl train)) [0..<nat nepochs]
      (initial_locals kw w) w")
  show ?thesis
  proof (cases r)
    case (Inl e)
    with el epoch_loop_error have "e = TypeError \<or> e = ZeroDivisionError" by blast
    with el Inl assms show ?thesis
      by (auto simp: train_val_def Let_def split: option.splits if_splits)
  next
    case (Inr L)
    with el assms show ?thesis
      by (auto simp: train_val_def Let_def split: option.splits if_splits)
  qed
qed

lemma train_val_not_AssertionError:
  "train_val T dl len nepochs kw w = (Inl err, w') \<Longrightarrow> err \<noteq> AssertionError"
  using train_val_error [of T dl len nepochs kw w err] by auto

lemma tune_L1_loop_not_AssertionError:
  "tune_L1_loop T dl len nepochs ls h w = (Inl err, w') \<Longrightarrow> err \<noteq> AssertionError"
proof (induction ls arbitrary: h w)
  case Nil
  then show ?case by simp
next
  case (Cons l ls)
  from Cons.prems Cons.IH show ?case
    by (auto simp: Let_def split: prod.split_asm sum.split_asm
        dest: train_val_not_AssertionError)
qed

lemma tune_model_structure_loop_not_AssertionError:
  "tune_model_structure_loop T DNN AdamW dl len nepochs adamw_kw ss h w = (Inl err, w')
     \<Longrightarrow> err \<noteq> AssertionError"
proof (induction ss arbitrary: h w)
  case Nil
  then show ?case by simp
next
  case (Cons s ss)
  from Cons.prems Cons.IH show ?case
    by (auto simp: Let_def split: prod.split_asm sum.split_asm
        dest: train_val_not_AssertionError)
qed

lemma argmin_not_AssertionError: "argmin xs \<noteq> Inl AssertionError"
  by (simp add: argmin_def split: list.splits)

lemma getitem_not_AssertionError: "getitem xs k \<noteq> Inl AssertionError"
  by (simp add: getitem_def)

lemma tune_L1_guard_passes:
  assumes "nepochs < 10"
  shows "fst (tune_L1 T dl len nepochs w) \<noteq> Inl AssertionError"
proof -
  obtain r w' where lp: "tune_L1_loop T dl len nepochs l1_lambdas [] w = (r, w')"
    by (cases "tune_L1_loop T dl len nepochs l1_lambdas [] w")
  show ?thesis
  proof (cases r)
    case (Inl e)
    from lp [unfolded Inl] have "e \<noteq> AssertionError"
      by (rule tune_L1_loop_not_AssertionError)
    with lp Inl assms show ?thesis by (simp add: tune_L1_def)
  next
    case (Inr h)
    with lp assms argmin_not_AssertionError [of h] getitem_not_AssertionError [of l1_lambdas]
    show ?thesis by (auto simp: tune_L1_def split: sum.splits)
  qed
qed

lemma tune_model_structure_guard_passes:
  assumes "nepochs < 10"
  shows "fst (tune_model_structure T DNN AdamW dl len nepochs structures adamw_kw w)
     \<noteq> Inl AssertionError"
proof -
  obtain r w' where lp: "tune_model_structure_loop T DNN AdamW dl len nepochs adamw_kw
      structures [] w = (r, w')"
    by (cases "tune_model_structure_loop T DNN AdamW dl len nepochs adamw_kw structures [] w")
  show ?thesis
  proof (cases r)
    case (Inl e)
    from lp [unfolded Inl] have "e \<noteq> AssertionError"
      by (rule tune_model_structure_loop_not_AssertionError)
    with lp Inl assms show ?thesis by (simp add: tune_model_structure_def)
  next
    case (Inr h)
    with lp assms argmin_not_AssertionError [of h] getitem_not_AssertionError [of structures]
    show ?thesis by (auto simp: tune_model_structure_def split: sum.splits)
  qed
qed

text \<open>
  C7: for every \<open>nepochs\<close> greater than or equal to 10, \<open>tune_L1\<close> and
  \<open>tune_model_structure\<close> both fail with the \<open>AssertionError\<close> of their first line and
  have run no trial: every object is as it was. For \<open>nepochs\<close> less than 10 neither
  assertion fails: whatever the tuner raises or returns, it is no \<open>AssertionError\<close>.
\<close>

theorem tuners_epoch_guard:
  "(10 \<le> nepochs \<longrightarrow>
      tune_L1 T dl len nepochs w = (Inl AssertionError, w)
      \<and> tune_model_structure T DNN AdamW dl len nepochs structures adamw_kw w
          = (Inl AssertionError, w))
   \<and> (nepochs < 10 \<longrightarrow>
      fst (tune_L1 T dl len nepochs w) \<noteq> Inl AssertionError
      \<and> fst (tune_model_structure T DNN AdamW dl len nepochs structures adamw_kw w)
          \<noteq> Inl AssertionError)"
  using tune_L1_guard_passes [of nepochs T dl len w]
    tune_model_structure_guard_passes [of nepochs T DNN AdamW dl len structures adamw_kw w]
  by (simp add: tune_L1_def tune_model_structure_def)

theorem tuners_epoch_guard_witness:
  "(10::int) \<le> 10
   \<and> tune_L1 toy (\<lambda>ph. [(1, 4)]) (\<lambda>ph. 1) 10 toy_world = (Inl AssertionError, toy_world)
   \<and> tune_model_structure toy toy_DNN toy_AdamW (\<lambda>ph. [(1, 4)]) (\<lambda>ph. 1) 10 [1, 2, 3] 0 toy_world
       = (Inl AssertionError, toy_world)
   \<and> (9::int) < 10
   \<and> fst (tune_L1 toy (\<lambda>ph. [(1, 4)]) (\<lambda>ph. 1) 9 toy_world) \<noteq> Inl AssertionError
   \<and> fst (tune_model_structure toy toy_DNN toy_AdamW (\<lambda>ph. [(1, 4)]) (\<lambda>ph. 1) 9 [1, 2, 3] 0
        toy_world) \<noteq> Inl AssertionError"
  using tuners_epoch_guard [where nepochs = 10 and T = toy and dl = "\<lambda>ph. [(1, 4)]"
      and len = "\<lambda>ph. 1" and w = toy_world and DNN = toy_DNN and AdamW = toy_AdamW
      and structures = "[1, 2, 3]" and adamw_kw = 0]
    tuners_epoch_guard [where nepochs = 9 and T = toy and dl = "\<lambda>ph. [(1, 4)]"
      and len = "\<lambda>ph. 1" and w = toy_world and DNN = toy_DNN and AdamW = toy_AdamW
      and structures = "[1, 2, 3]" and adamw_kw = 0]
  by simp

section \<open>The tuners select a candidate of minimal recorded loss\<close>

lemma tune_L1_loop_trials:
  "tune_L1_loop T dl len nepochs ls h w = trials_loop (l1_trial T dl len nepochs) ls h w"
  by (induction ls arbitrary: h w)
    (simp_all add: l1_trial_def Let_def split: prod.splits sum.splits)

lemma tune_model_structure_loop_trials:
  "tune_model_structure_loop T DNN AdamW dl len nepochs adamw_kw ss h w
     = trials_loop (structure_trial T DNN AdamW dl len nepochs adamw_kw) ss h w"
  by (induction ss arbitrary: h w)
    (simp_all add: structure_trial_def Let_def split: prod.splits sum.splits)

lemma world_before_Cons:
  "world_before trial (c # cs) w (Suc j) = world_before trial cs (snd (trial c w)) j"
  by (induction j) simp_all

lemma recorded_loss_Cons:
  "recorded_loss trial (c # cs) w (Suc j) = recorded_loss trial cs (snd (trial c w)) j"
  by (simp add: recorded_loss_def world_before_Cons del: world_before.simps)

lemma trials_loop_Inr:
  assumes "trials_loop trial cs h w = (Inr h', w')"
  shows "length h' = length h + length cs \<and> take (length h) h' = h
     \<and> (\<forall>j<length cs. recorded_loss trial cs w j = Some (h' ! (length h + j)))
     \<and> w' = world_before trial cs w (length cs)"
  using assms
proof (induction cs arbitrary: h w)
  case Nil
  then show ?case by simp
next
  case (Cons c cs)
  from Cons.prems obtain r w2 where
    tr: "trial c w = (Inr r, w2)" and
    lp: "trials_loop trial cs (h @ [snd (snd r)]) w2 = (Inr h', w')"
    by (auto split: prod.split_asm sum.split_asm)
  from Cons.IH [OF lp] have
    a: "length h' = Suc (length h) + length cs" and
    b: "take (Suc (length h)) h' = h @ [snd (snd r)]" and
    c: "\<forall>j<length cs. recorded_loss trial cs w2 j = Some (h' ! (Suc (length h) + j))" and
    d: "w' = world_before trial cs w2 (length cs)"
    by simp_all
  have "take (length h) (take (Suc (length h)) h') = take (length h) h'"
    by (simp add: min_def)
  with b have b1: "take (length h) h' = h" by simp
  have "take (Suc (length h)) h' ! length h = h' ! length h" by simp
  with b have b2: "h' ! length h = snd (snd r)" by simp
  have e: "recorded_loss trial (c # cs) w j = Some (h' ! (length h + j))"
    if "j < length (c # cs)" for j
  proof (cases j)
    case 0
    with tr b2 show ?thesis by (simp add: recorded_loss_def)
  next
    case (Suc i)
    with that c tr show ?thesis by (simp add: recorded_loss_Cons)
  qed
  from d tr have "w' = world_before trial (c # cs) w (length (c # cs))"
    by (simp add: world_before_Cons del: world_before.simps)
  with a b1 e show ?case by simp
qed

lemma argmin_loop_correct:
  assumes "bi < length ys" and "ys ! bi = bv" and "\<forall>j<length ys. bv \<le> ys ! j"
    and "\<forall>j<bi. bv < ys ! j"
  shows "argmin_loop bi bv (length ys) xs < length (ys @ xs)
     \<and> (\<forall>j<length (ys @ xs). (ys @ xs) ! argmin_loop bi bv (length ys) xs \<le> (ys @ xs) ! j)
     \<and> (\<forall>j<argmin_loop bi bv (length ys) xs.
           (ys @ xs) ! argmin_loop bi bv (length ys) xs < (ys @ xs) ! j)"
  using assms
proof (induction xs arbitrary: ys bi bv)
  case Nil
  then show ?case by simp
next
  case (Cons x xs)
  show ?case
  proof (cases "x < bv")
    case True
    have 1: "length ys < length (ys @ [x])" by simp
    have 2: "(ys @ [x]) ! length ys = x" by simp
    have 3: "\<forall>j<length (ys @ [x]). x \<le> (ys @ [x]) ! j"
      using True Cons.prems(3) by (auto simp: nth_append less_Suc_eq)
    have 4: "\<forall>j<length ys. x < (ys @ [x]) ! j"
      using True Cons.prems(3) by (auto simp: nth_append)
    from Cons.IH [OF 1 2 3 4] True show ?thesis by simp
  next
    case False
    have 1: "bi < length (ys @ [x])" using Cons.prems(1) by simp
    have 2: "(ys @ [x]) ! bi = bv" using Cons.prems(1,2) by (simp add: nth_append)
    have 3: "\<forall>j<length (ys @ [x]). bv \<le> (ys @ [x]) ! j"
      using False Cons.prems(3) by (auto simp: nth_append less_Suc_eq)
    have 4: "\<forall>j<bi. bv < (ys @ [x]) ! j"
      using Cons.prems(1,4) by (auto simp: nth_append)
    from Cons.IH [OF 1 2 3 4] False show ?thesis by simp
  qed
qed

lemma argmin_correct:
  assumes "argmin xs = Inr k"
  shows "k < length xs \<and> (\<forall>j<length xs. xs ! k \<le> xs ! j) \<and> (\<forall>j<k. xs ! k < xs ! j)"
proof (cases xs)
  case Nil
  with assms show ?thesis by (simp add: argmin_def)
next
  case (Cons x rest)
  with assms have k: "k = argmin_loop 0 x (length [x]) rest" by (simp add: argmin_def)
  from argmin_loop_correct [of 0 "[x]" x rest] show ?thesis
    unfolding k Cons by simp
qed

lemma argmin_empty: "argmin xs = Inl e \<Longrightarrow> xs = []"
  by (simp add: argmin_def split: list.splits)

lemma trials_select:
  assumes "trials_loop trial cs [] w = (Inr h, w')" and "argmin h = Inr k"
  shows "k < length cs
     \<and> (\<exists>b. recorded_loss trial cs w k = Some b
           \<and> (\<forall>j<length cs. \<exists>b'. recorded_loss trial cs w j = Some b' \<and> b \<le> b')
           \<and> (\<forall>j<k. \<exists>b'. recorded_loss trial cs w j = Some b' \<and> b < b'))"
proof -
  from trials_loop_Inr [OF assms(1)] have
    len: "length h = length cs" and
    rec: "\<forall>j<length cs. recorded_loss trial cs w j = Some (h ! j)"
    by simp_all
  from argmin_correct [OF assms(2)] len have
    k: "k < length cs" and
    mn: "\<forall>j<length cs. h ! k \<le> h ! j" and
    fs: "\<forall>j<k. h ! k < h ! j"
    by simp_all
  from k rec mn fs show ?thesis by auto
qed

lemma l1_lambdas_length: "length l1_lambdas = 10"
  by (simp add: l1_lambdas_def logspace_def)

lemma l1_lambdas_nth:
  "k < 10 \<Longrightarrow> l1_lambdas ! k = 10 powr (- 6 + real k * (2 / 3))"
  by (simp add: l1_lambdas_def logspace_def)

lemma l1_lambdas_first: "l1_lambdas ! 0 = 1 / 10 ^ 6"
proof -
  have "l1_lambdas ! 0 = 10 powr (- 6)" by (simp add: l1_lambdas_nth)
  also have "\<dots> = 1 / 10 ^ 6" by (simp add: powr_minus_divide)
  finally show ?thesis .
qed

lemma l1_lambdas_last: "l1_lambdas ! 9 = 1"
  by (simp add: l1_lambdas_nth)

lemma l1_lambdas_ratio:
  assumes "k < 9"
  shows "l1_lambdas ! Suc k = l1_lambdas ! k * 10 powr (2 / 3)"
proof -
  have e: "- 6 + real (Suc k) * (2 / 3) = (- 6 + real k * (2 / 3)) + 2 / 3"
    by (simp add: field_simps)
  from assms have "l1_lambdas ! Suc k = 10 powr (- 6 + real (Suc k) * (2 / 3))"
    by (intro l1_lambdas_nth) simp
  also have "\<dots> = 10 powr ((- 6 + real k * (2 / 3)) + 2 / 3)"
    by (simp only: e)
  also have "\<dots> = 10 powr (- 6 + real k * (2 / 3)) * 10 powr (2 / 3)"
    by (rule powr_add)
  finally show ?thesis using assms by (simp add: l1_lambdas_nth)
qed

lemma getitem_Inr: "getitem xs k = Inr x \<Longrightarrow> k < length xs \<and> x = xs ! k"
  by (auto simp: getitem_def split: if_split_asm)

lemma tune_L1_Inr:
  assumes "tune_L1 T dl len nepochs w = (Inr strength, w')"
  shows "\<exists>h k. trials_loop (l1_trial T dl len nepochs) l1_lambdas [] w = (Inr h, w')
     \<and> argmin h = Inr k \<and> k < 10 \<and> strength = l1_lambdas ! k"
  using assms
  by (auto simp: tune_L1_def tune_L1_loop_trials l1_lambdas_length
      split: if_split_asm prod.split_asm sum.split_asm dest!: getitem_Inr)

lemma tune_model_structure_Inr:
  assumes "tune_model_structure T DNN AdamW dl len nepochs structures adamw_kw w = (Inr s, w')"
  shows "\<exists>h k. trials_loop (structure_trial T DNN AdamW dl len nepochs adamw_kw)
            structures [] w = (Inr h, w')
     \<and> argmin h = Inr k \<and> k < length structures \<and> s = structures ! k"
  using assms
  by (auto simp: tune_model_structure_def tune_model_structure_loop_trials
      split: if_split_asm prod.split_asm sum.split_asm dest!: getitem_Inr)

lemma tune_L1_selects:
  assumes "tune_L1 T dl len nepochs w = (Inr strength, w')"
  shows "\<exists>k<10. strength = l1_lambdas ! k
     \<and> (\<exists>b. recorded_loss (l1_trial T dl len nepochs) l1_lambdas w k = Some b
          \<and> (\<forall>j<10. \<exists>b'. recorded_loss (l1_trial T dl len nepochs) l1_lambdas w j = Some b'
                \<and> b \<le> b'))"
proof -
  from tune_L1_Inr [OF assms] obtain h k where
    lp: "trials_loop (l1_trial T dl len nepochs) l1_lambdas [] w = (Inr h, w')" and
    am: "argmin h = Inr k" and k: "k < 10" "strength = l1_lambdas ! k"
    by blast
  from trials_select [OF lp am] k show ?thesis
    unfolding l1_lambdas_length by blast
qed

lemma tune_model_structure_selects:
  assumes "tune_model_structure T DNN AdamW dl len nepochs structures adamw_kw w = (Inr s, w')"
  shows "\<exists>k<length structures. s = structures ! k
     \<and> (\<exists>b. recorded_loss (structure_trial T DNN AdamW dl len nepochs adamw_kw)
               structures w k = Some b
          \<and> (\<forall>j<length structures.
                \<exists>b'. recorded_loss (structure_trial T DNN AdamW dl len nepochs adamw_kw)
                        structures w j = Some b'
                \<and> b \<le> b'))"
proof -
  from tune_model_structure_Inr [OF assms] obtain h k where
    lp: "trials_loop (structure_trial T DNN AdamW dl len nepochs adamw_kw)
           structures [] w = (Inr h, w')" and
    am: "argmin h = Inr k" and k: "k < length structures" "s = structures ! k"
    by blast
  from trials_select [OF lp am] k show ?thesis by blast
qed

text \<open>
  C5: the strengths \<open>tune_L1\<close> sweeps are the 10 logarithmically spaced values from 1e-6
  to 1, both included (each is the one before times the same factor). When \<open>tune_L1\<close>
  returns, every one of its 10 trials (weights reset, that strength, the one optimizer
  carried from trial to trial) has recorded a best validation loss, and the strength
  returned is one whose recorded loss is minimal. When \<open>tune_model_structure\<close> returns,
  every trial (a fresh model and a fresh optimizer per candidate) has recorded a best
  validation loss, and the structure returned is one whose recorded loss is minimal.
\<close>

theorem tuners_select_minimal_best_val_loss:
  "length l1_lambdas = 10 \<and> l1_lambdas ! 0 = 1 / 10 ^ 6 \<and> l1_lambdas ! 9 = 1
   \<and> (\<forall>k<9. l1_lambdas ! Suc k = l1_lambdas ! k * 10 powr (2 / 3))
   \<and> (\<forall>strength w'. tune_L1 T dl len nepochs w = (Inr strength, w') \<longrightarrow>
        (\<exists>k<10. strength = l1_lambdas ! k
           \<and> (\<exists>b. recorded_loss (l1_trial T dl len nepochs) l1_lambdas w k = Some b
                \<and> (\<forall>j<10. \<exists>b'. recorded_loss (l1_trial T dl len nepochs) l1_lambdas w j
                                = Some b'
                      \<and> b \<le> b'))))
   \<and> (\<forall>s w'. tune_model_structure T DNN AdamW dl len nepochs structures adamw_kw w
                 = (Inr s, w') \<longrightarrow>
        (\<exists>k<length structures. s = structures ! k
           \<and> (\<exists>b. recorded_loss (structure_trial T DNN AdamW dl len nepochs adamw_kw)
                     structures w k = Some b
                \<and> (\<forall>j<length structures.
                      \<exists>b'. recorded_loss (structure_trial T DNN AdamW dl len nepochs adamw_kw)
                              structures w j = Some b'
                      \<and> b \<le> b'))))"
  using l1_lambdas_length l1_lambdas_first l1_lambdas_last l1_lambdas_ratio
    tune_L1_selects [of T dl len nepochs w]
    tune_model_structure_selects [of T DNN AdamW dl len nepochs structures adamw_kw w]
  by (intro conjI allI impI) blast+

lemma train_batches_files:
  "train_batches T kw e n bs i r w = (res, w') \<Longrightarrow> files w' = files w"
proof (induction bs arbitrary: i r w)
  case Nil
  then show ?case by simp
next
  case (Cons bt bs)
  obtain data target where bt: "bt = (data, target)" by (cases bt)
  from Cons.prems show ?case
    unfolding bt
    by (auto simp: Let_def split: sum.split_asm if_split_asm dest!: Cons.IH)
qed

lemma epoch_body_files:
  "epoch_body T dl len kw n e L w = (res, w') \<Longrightarrow> files w' = files w"
  by (auto simp: epoch_body_def Let_def split: prod.split_asm sum.split_asm if_split_asm
      dest!: train_batches_files)

lemma epoch_loop_files:
  "epoch_loop T dl len kw n es L w = (res, w') \<Longrightarrow> files w' = files w"
proof (induction es arbitrary: L w)
  case Nil
  then show ?case by simp
next
  case (Cons e es)
  from Cons.prems show ?case
    by (auto split: prod.split_asm sum.split_asm if_split_asm
        dest!: epoch_body_files Cons.IH)
qed

lemma train_val_files:
  assumes "output_path kw = None"
  shows "files (snd (train_val T dl len nepochs kw w)) = files w"
proof -
  obtain res w'' where el: "epoch_loop T dl len kw (length (dl train)) [0..<nat nepochs]
      (initial_locals kw w) w = (res, w'')"
    by (cases "epoch_loop T dl len kw (length (dl train)) [0..<nat nepochs]
      (initial_locals kw w) w")
  from epoch_loop_files [OF el] have "files w'' = files w" .
  with el assms show ?thesis
    by (cases res) (simp_all add: train_val_def Let_def)
qed

lemma l1_trial_files: "files (snd (l1_trial T dl len nepochs strength w)) = files w"
  by (simp add: l1_trial_def train_val_files default_kwargs_def)

lemma world_before_l1_files:
  "files (world_before (l1_trial T dl len nepochs) cs w j) = files w"
  by (induction j) (simp_all add: l1_trial_files)

text \<open>
  C10: when \<open>tune_L1\<close> returns, the objects are what the tenth and last trial (strength 1)
  left: each trial started on the objects the trial before left, with only the model's
  layers reset, so the optimizer was never made anew, and after the last trial nothing is
  put back. No file was written either: the weights of the selected trial are kept
  nowhere.
\<close>

theorem tune_L1_leaves_last_trial:
  assumes "tune_L1 T dl len nepochs w = (Inr strength, w')"
  shows "\<exists>ws. length ws = 11 \<and> ws ! 0 = w \<and> ws ! 10 = w'
     \<and> (\<forall>j<10. ws ! Suc j =
           snd (train_val T dl len nepochs
                  (default_kwargs\<lparr>L1lambda := l1_lambdas ! j, L1norm := True\<rparr>)
                  ((ws ! j)\<lparr>model := module_apply (weight_reset T) (model (ws ! j))\<rparr>)))
     \<and> l1_lambdas ! 9 = 1 \<and> files w' = files w"
proof -
  let ?wb = "world_before (l1_trial T dl len nepochs) l1_lambdas w"
  from tune_L1_Inr [OF assms] obtain h where
    lp: "trials_loop (l1_trial T dl len nepochs) l1_lambdas [] w = (Inr h, w')"
    by blast
  from trials_loop_Inr [OF lp] have w': "w' = ?wb 10"
    by (simp add: l1_lambdas_length)
  have step: "map ?wb [0..<11] ! Suc j =
      snd (train_val T dl len nepochs
             (default_kwargs\<lparr>L1lambda := l1_lambdas ! j, L1norm := True\<rparr>)
             ((map ?wb [0..<11] ! j)\<lparr>model :=
                module_apply (weight_reset T) (model (map ?wb [0..<11] ! j))\<rparr>))"
    if "j < 10" for j
  proof -
    from that have "map ?wb [0..<11] ! Suc j = ?wb (Suc j)" "map ?wb [0..<11] ! j = ?wb j"
      by (simp_all del: upt_Suc world_before.simps)
    then show ?thesis by (simp add: l1_trial_def)
  qed
  have z: "map ?wb [0..<11] ! 0 = w" "map ?wb [0..<11] ! 10 = ?wb 10"
    by (simp_all del: upt_Suc world_before.simps(2))
  have "length (map ?wb [0..<11]) = 11" by simp
  with z step w' l1_lambdas_last world_before_l1_files [of T dl len nepochs l1_lambdas w 10]
  show ?thesis
    by (intro exI [of _ "map ?wb [0..<11]"]) (simp del: upt_Suc world_before.simps)
qed

text \<open>
  The tuners on the small instance, one epoch per trial. Trial \<open>j\<close> of the L1 tuner ends
  with the weight \<open>j + 1\<close>, because the shared optimizer goes on counting; the loss is
  least for the fourth strength, and the model is left with the weight 10 of the last
  trial.
\<close>

lemmas toy_tune =
  tune_L1_def tune_model_structure_def l1_lambdas_def logspace_def argmin_def getitem_def
  weight_reset_def module_apply_def toy_DNN_def toy_AdamW_def

lemma toy_tune_L1_run:
  "fst (tune_L1 toy (\<lambda>ph. [(1, 4)]) (\<lambda>ph. 1) 1 toy_world) = Inr (l1_lambdas ! 3)
   \<and> model (snd (tune_L1 toy (\<lambda>ph. [(1, 4)]) (\<lambda>ph. 1) 1 toy_world))
       = \<lparr>modules = [(Linear, 10)], training = False\<rparr>
   \<and> optimizer (snd (tune_L1 toy (\<lambda>ph. [(1, 4)]) (\<lambda>ph. 1) 1 toy_world)) = 10"
  by (simp add: toy_tune toy_run)

lemma toy_tune_model_structure_run:
  "fst (tune_model_structure toy toy_DNN toy_AdamW (\<lambda>ph. [(1, 4)]) (\<lambda>ph. 1) 1 [1, 2, 3] 0
          toy_world) = Inr 2"
  by (simp add: toy_tune toy_run sum_list_replicate)

theorem tuners_select_minimal_best_val_loss_witness:
  "fst (tune_L1 toy (\<lambda>ph. [(1, 4)]) (\<lambda>ph. 1) 1 toy_world) = Inr (l1_lambdas ! 3)
   \<and> (\<exists>k<10. l1_lambdas ! 3 = l1_lambdas ! k
         \<and> (\<exists>b. recorded_loss (l1_trial toy (\<lambda>ph. [(1, 4)]) (\<lambda>ph. 1) 1) l1_lambdas
                   toy_world k = Some b
              \<and> (\<forall>j<10. \<exists>b'. recorded_loss (l1_trial toy (\<lambda>ph. [(1, 4)]) (\<lambda>ph. 1) 1)
                                  l1_lambdas toy_world j = Some b'
                    \<and> b \<le> b')))
   \<and> fst (tune_model_structure toy toy_DNN toy_AdamW (\<lambda>ph. [(1, 4)]) (\<lambda>ph. 1) 1 [1, 2, 3] 0
          toy_world) = Inr 2
   \<and> (\<exists>k<length [1, 2, 3 :: nat]. (2::nat) = [1, 2, 3] ! k
         \<and> (\<exists>b. recorded_loss
                   (structure_trial toy toy_DNN toy_AdamW (\<lambda>ph. [(1, 4)]) (\<lambda>ph. 1) 1 0)
                   [1, 2, 3] toy_world k = Some b
              \<and> (\<forall>j<length [1, 2, 3 :: nat].
                    \<exists>b'. recorded_loss
                            (structure_trial toy toy_DNN toy_AdamW (\<lambda>ph. [(1, 4)]) (\<lambda>ph. 1) 1 0)
                            [1, 2, 3] toy_world j = Some b'
                    \<and> b \<le> b')))"
proof -
  let ?r1 = "tune_L1 toy (\<lambda>ph. [(1, 4)]) (\<lambda>ph. 1) 1 toy_world"
  let ?r2 = "tune_model_structure toy toy_DNN toy_AdamW (\<lambda>ph. [(1, 4)]) (\<lambda>ph. 1) 1
               [1, 2, 3] 0 toy_world"
  from toy_tune_L1_run have f1: "fst ?r1 = Inr (l1_lambdas ! 3)" by blast
  then have r1: "?r1 = (Inr (l1_lambdas ! 3), snd ?r1)" by (simp add: prod_eq_iff)
  note f2 = toy_tune_model_structure_run
  then have r2: "?r2 = (Inr 2, snd ?r2)" by (simp add: prod_eq_iff)
  note t = tuners_select_minimal_best_val_loss [where T = toy and dl = "\<lambda>ph. [(1, 4)]"
      and len = "\<lambda>ph. 1" and nepochs = 1 and w = toy_world and DNN = toy_DNN
      and AdamW = toy_AdamW and structures = "[1, 2, 3]" and adamw_kw = 0]
  from t r1 have a: "\<exists>k<10. l1_lambdas ! 3 = l1_lambdas ! k
         \<and> (\<exists>b. recorded_loss (l1_trial toy (\<lambda>ph. [(1, 4)]) (\<lambda>ph. 1) 1) l1_lambdas
                   toy_world k = Some b
              \<and> (\<forall>j<10. \<exists>b'. recorded_loss (l1_trial toy (\<lambda>ph. [(1, 4)]) (\<lambda>ph. 1) 1)
                                  l1_lambdas toy_world j = Some b'
                    \<and> b \<le> b'))"
    by blast
  from t r2 have b: "\<exists>k<length [1, 2, 3 :: nat]. (2::nat) = [1, 2, 3] ! k
         \<and> (\<exists>b. recorded_loss
                   (structure_trial toy toy_DNN toy_AdamW (\<lambda>ph. [(1, 4)]) (\<lambda>ph. 1) 1 0)
                   [1, 2, 3] toy_world k = Some b
              \<and> (\<forall>j<length [1, 2, 3 :: nat].
                    \<exists>b'. recorded_loss
                            (structure_trial toy toy_DNN toy_AdamW (\<lambda>ph. [(1, 4)]) (\<lambda>ph. 1) 1 0)
                            [1, 2, 3] toy_world j = Some b'
                    \<and> b \<le> b'))"
    by blast
  from f1 a f2 b show ?thesis by (intro conjI)
qed

theorem tune_L1_leaves_last_trial_witness:
  "fst (tune_L1 toy (\<lambda>ph. [(1, 4)]) (\<lambda>ph. 1) 1 toy_world) = Inr (l1_lambdas ! 3)
   \<and> model (snd (tune_L1 toy (\<lambda>ph. [(1, 4)]) (\<lambda>ph. 1) 1 toy_world))
       = \<lparr>modules = [(Linear, 10)], training = False\<rparr>
   \<and> optimizer (snd (tune_L1 toy (\<lambda>ph. [(1, 4)]) (\<lambda>ph. 1) 1 toy_world)) = 10
   \<and> l1_lambdas ! 9 = 1
   \<and> files (snd (tune_L1 toy (\<lambda>ph. [(1, 4)]) (\<lambda>ph. 1) 1 toy_world)) = files toy_world"
proof -
  let ?r1 = "tune_L1 toy (\<lambda>ph. [(1, 4)]) (\<lambda>ph. 1) 1 toy_world"
  from toy_tune_L1_run have f1: "fst ?r1 = Inr (l1_lambdas ! 3)" by blast
  then have r1: "?r1 = (Inr (l1_lambdas ! 3), snd ?r1)" by (simp add: prod_eq_iff)
  from tune_L1_leaves_last_trial [OF r1] have
    "l1_lambdas ! 9 = 1 \<and> files (snd ?r1) = files toy_world"
    by blast
  with toy_tune_L1_run show ?thesis by blast
qed

end
